theory Spec2Isabelle
  imports Complex_Main
begin

section \<open>Python values\<close>

text \<open>
  A Python \<open>str\<close> is a list of Unicode code points. \<open>py\<close> turns a string
  literal into such a string.
\<close>

type_synonym pystr = "nat list"

definition py :: "string \<Rightarrow> pystr" where
  "py s = map of_char s"

text \<open>
  The values that \<open>yaml.safe_load\<close> and \<open>resp.json()\<close> hand to the connectors:
  \<open>None\<close>, \<open>bool\<close>, finite numbers, \<open>str\<close>, \<open>list\<close> and \<open>dict\<close>. A \<open>dict\<close> is
  the list of its items, in order, with string keys that are distinct. Numbers are
  rationals: an \<open>int\<close> is a rational that is whole.
\<close>

datatype pyval =
    PNone
  | PBool bool
  | PNum rat
  | PStr pystr
  | PList "pyval list"
  | PDict "(pystr \<times> pyval) list"

text \<open>
  Exceptions are values. Every \<open>raise\<close> of the connectors, and every exception a
  collaborator (HTTP client, Redis, the standard library) can hand back, is an
  \<open>error\<close>; a computation that may raise returns \<open>error + 'a\<close> with \<open>Inl\<close> the
  exception.
\<close>

datatype error =
    KeyError pyval
  | IndexError
  | TypeError
  | AttributeError
  | ValueError pystr
  | RuntimeError pystr
  | TimeoutException
  | ConnectError
  | HTTPStatusError nat
  | JSONDecodeError
  | RedisError pystr

text \<open>Sequencing of two steps that may raise.\<close>

definition and_then :: "error + 'a \<Rightarrow> ('a \<Rightarrow> error + 'b) \<Rightarrow> error + 'b" where
  "and_then x f = (case x of Inl e \<Rightarrow> Inl e | Inr v \<Rightarrow> f v)"

text \<open>The truth value of \<open>x\<close> in \<open>if x\<close>.\<close>

fun truthy :: "pyval \<Rightarrow> bool" where
  "truthy PNone = False"
| "truthy (PBool b) = b"
| "truthy (PNum q) = (q \<noteq> 0)"
| "truthy (PStr s) = (s \<noteq> [])"
| "truthy (PList xs) = (xs \<noteq> [])"
| "truthy (PDict kvs) = (kvs \<noteq> [])"

text \<open>\<open>x[key]\<close> with a string key: only a \<open>dict\<close> can be subscripted by a string.\<close>

fun getitem_key :: "pyval \<Rightarrow> pystr \<Rightarrow> error + pyval" where
  "getitem_key (PDict kvs) k =
     (case map_of kvs k of None \<Rightarrow> Inl (KeyError (PStr k)) | Some v \<Rightarrow> Inr v)"
| "getitem_key _ k = Inl TypeError"

text \<open>\<open>x.get(key, default)\<close>: only a \<open>dict\<close> has the method.\<close>

fun py_get :: "pyval \<Rightarrow> pystr \<Rightarrow> pyval \<Rightarrow> error + pyval" where
  "py_get (PDict kvs) k d = Inr (case map_of kvs k of None \<Rightarrow> d | Some v \<Rightarrow> v)"
| "py_get _ k d = Inl AttributeError"

text \<open>\<open>x.items()\<close>: only a \<open>dict\<close> has the method.\<close>

fun py_items :: "pyval \<Rightarrow> error + (pystr \<times> pyval) list" where
  "py_items (PDict kvs) = Inr kvs"
| "py_items _ = Inl AttributeError"

text \<open>\<open>x[0]\<close>: a list or a string is indexed, a dict has no key \<open>0\<close>.\<close>

fun getitem_0 :: "pyval \<Rightarrow> error + pyval" where
  "getitem_0 (PList []) = Inl IndexError"
| "getitem_0 (PList (x # xs)) = Inr x"
| "getitem_0 (PStr []) = Inl IndexError"
| "getitem_0 (PStr (c # cs)) = Inr (PStr [c])"
| "getitem_0 (PDict kvs) = Inl (KeyError (PNum 0))"
| "getitem_0 _ = Inl TypeError"

text \<open>\<open>len(x)\<close>.\<close>

fun py_len :: "pyval \<Rightarrow> error + int" where
  "py_len (PList xs) = Inr (int (length xs))"
| "py_len (PStr s) = Inr (int (length s))"
| "py_len (PDict kvs) = Inr (int (length kvs))"
| "py_len _ = Inl TypeError"

text \<open>\<open>for x in v\<close>: the elements of a list, the characters of a string, the keys of a dict.\<close>

fun py_iter :: "pyval \<Rightarrow> error + pyval list" where
  "py_iter (PList xs) = Inr xs"
| "py_iter (PStr s) = Inr (map (\<lambda>c. PStr [c]) s)"
| "py_iter (PDict kvs) = Inr (map (\<lambda>kv. PStr (fst kv)) kvs)"
| "py_iter _ = Inl TypeError"

text \<open>
  \<open>x in {s1, s2, ...}\<close> for a set of strings: the value is hashed first, which a
  list or a dict refuses.
\<close>

fun in_str_set :: "pyval \<Rightarrow> pystr list \<Rightarrow> error + bool" where
  "in_str_set (PStr s) ss = Inr (s \<in> set ss)"
| "in_str_set (PList xs) ss = Inl TypeError"
| "in_str_set (PDict kvs) ss = Inl TypeError"
| "in_str_set _ ss = Inr False"

text \<open>
  A value inside an f-string: a string stands for itself, any other value for its
  \<open>str\<close>, which is library code and a parameter here.
\<close>

fun fmt :: "(pyval \<Rightarrow> pystr) \<Rightarrow> pyval \<Rightarrow> pystr" where
  "fmt str (PStr s) = s"
| "fmt str v = str v"

text \<open>
  \<open>int(x)\<close>: a number is truncated towards zero, a \<open>bool\<close> is 0 or 1, a string is
  parsed (by the library, a parameter here, which raises \<open>ValueError\<close> on a string
  that is no integer literal), anything else is a \<open>TypeError\<close>.
\<close>

fun py_int :: "(pystr \<Rightarrow> error + int) \<Rightarrow> pyval \<Rightarrow> error + int" where
  "py_int parse (PNum q) = Inr (if 0 \<le> q then \<lfloor>q\<rfloor> else \<lceil>q\<rceil>)"
| "py_int parse (PBool b) = Inr (if b then 1 else 0)"
| "py_int parse (PStr s) = parse s"
| "py_int parse _ = Inl TypeError"

section \<open>Text normalisation and the cache fingerprint\<close>

text \<open>
  The whitespace of \<open>str.split()\<close> and \<open>str.isspace\<close>: TAB, LF, VT, FF, CR, FS, GS,
  RS, US, space, NEL, NBSP, U+1680, U+2000 to U+200A, U+2028, U+2029, U+202F, U+205F
  and U+3000.
\<close>

definition is_space :: "nat \<Rightarrow> bool" where
  "is_space c =
     (c \<in> {9, 10, 11, 12, 13, 28, 29, 30, 31, 32, 133, 160, 5760, 8232, 8233, 8239, 8287, 12288}
      \<or> (8192 \<le> c \<and> c \<le> 8202))"

text \<open>
  \<open>str.split()\<close> with no separator: a scan that skips whitespace and cuts a word at
  each whitespace character; \<open>cur\<close> is the word being read, reversed.
\<close>

fun split_scan :: "pystr \<Rightarrow> pystr \<Rightarrow> pystr list" where
  "split_scan [] cur = (if cur = [] then [] else [rev cur])"
| "split_scan (c # cs) cur =
     (if is_space c
      then (if cur = [] then split_scan cs [] else rev cur # split_scan cs [])
      else split_scan cs (c # cur))"

definition py_split :: "pystr \<Rightarrow> pystr list" where
  "py_split text = split_scan text []"

text \<open>\<open>sep.join(words)\<close>.\<close>

fun py_join :: "pystr \<Rightarrow> pystr list \<Rightarrow> pystr" where
  "py_join sep [] = []"
| "py_join sep [w] = w"
| "py_join sep (w # ws) = w @ sep @ py_join sep ws"

text \<open>\<open>" ".join(text.split())\<close>, the first line of \<open>_fingerprint\<close>.\<close>

definition normalize_text :: "pystr \<Rightarrow> pystr" where
  "normalize_text text = py_join (py '' '') (py_split text)"

text \<open>
  \<open>_fingerprint(text, model)\<close>. The parameter \<open>digest\<close> stands for
  \<open>hashlib.sha256(s.encode("utf-8")).hexdigest()\<close>, which is library code.
\<close>

definition fingerprint :: "(pystr \<Rightarrow> pystr) \<Rightarrow> pystr \<Rightarrow> pystr \<Rightarrow> pystr" where
  "fingerprint digest text model_name = digest (model_name @ py ''::'' @ normalize_text text)"

text \<open>
  Two texts differ only in whitespace runs when one is reached from the other by
  edits that replace a non-empty run of whitespace by another non-empty run, or
  change the whitespace at the start or at the end of the text in any way.
\<close>

inductive ws_edit :: "pystr \<Rightarrow> pystr \<Rightarrow> bool" where
  inner: "w1 \<noteq> [] \<Longrightarrow> w2 \<noteq> [] \<Longrightarrow> list_all is_space w1 \<Longrightarrow> list_all is_space w2
          \<Longrightarrow> ws_edit (u @ w1 @ v) (u @ w2 @ v)"
| leading: "list_all is_space w1 \<Longrightarrow> list_all is_space w2 \<Longrightarrow> ws_edit (w1 @ v) (w2 @ v)"
| trailing: "list_all is_space w1 \<Longrightarrow> list_all is_space w2 \<Longrightarrow> ws_edit (u @ w1) (u @ w2)"
| same: "ws_edit s s"
| step: "ws_edit s t \<Longrightarrow> ws_edit t u \<Longrightarrow> ws_edit s u"

text \<open>A word of the normal form: not empty, and free of whitespace.\<close>

definition word_ok :: "pystr \<Rightarrow> bool" where
  "word_ok w = (w \<noteq> [] \<and> \<not> list_ex is_space w)"

section \<open>The logger\<close>

text \<open>
  \<open>logging/logger.py\<close> defines \<open>def get_logger(name: str) -> logging.Logger\<close>, and
  the connectors import this function. A call is modelled by the list of its
  positional arguments. With one argument: a string gives the logger of that name;
  \<open>None\<close> gets through \<open>logging.getLogger\<close> and raises \<open>AttributeError\<close> at
  \<open>logger_name.split(".")\<close>; any other value is refused by \<open>logging.getLogger\<close>
  with \<open>TypeError\<close>. With any other number of positional arguments Python raises
  \<open>TypeError\<close> before the body runs.
\<close>

datatype logger = Logger pystr

fun get_logger :: "pyval list \<Rightarrow> error + logger" where
  "get_logger [PStr nm] = Inr (Logger nm)"
| "get_logger [PNone] = Inl AttributeError"
| "get_logger args = Inl TypeError"

text \<open>
  \<open>logger.error(msg, ..., ka_code="...")\<close> on the \<open>logging.Logger\<close> that \<open>get_logger\<close>
  returns (level \<open>DEBUG\<close>): \<open>Logger.error\<close> passes its keyword arguments on to
  \<open>Logger._log\<close>, which has no parameter \<open>ka_code\<close> and raises \<open>TypeError\<close>. The calls
  of \<open>logger.info\<close> and \<open>logger.warning\<close> in the connectors have no keyword argument
  and no effect on what the connectors return; they are left out.
\<close>

definition logger_error_ka_code :: "logger \<Rightarrow> error + unit" where
  "logger_error_ka_code lg = Inl TypeError"

section \<open>Providers, routes and routers\<close>

text \<open>
  The dataclasses of \<open>llm_router.py\<close> and \<open>embedding_router.py\<close>. The fields that
  the loaders copy from the document hold whatever value the document has there.
  An \<open>EmbeddingProvider\<close> has the fields of an \<open>LLMProvider\<close> and \<open>embedding_dim\<close>;
  \<open>LLMRoute\<close> and \<open>EmbeddingRoute\<close> have the same four fields, so one record
  \<open>Route\<close> stands for both. \<open>Router\<close> has the three fields of an
  \<open>EmbeddingRouter\<close>; an \<open>LLMRouter\<close> has a component label as well.
\<close>

record LLMProvider =
  name :: pystr
  provider_type :: pyval
  endpoint :: pyval
  api_key :: pyval
  model :: pyval
  timeout_ms :: int
  retries :: int

record EmbeddingProvider = LLMProvider +
  embedding_dim :: int

record Route =
  route_name :: pystr
  strategy :: pyval
  providers :: pyval
  weights :: pyval

record 'p Router =
  router_providers :: "pystr \<rightharpoonup> 'p"
  routes :: "pystr \<rightharpoonup> Route"
  default_route :: Route

record LLMRouter = "LLMProvider Router" +
  component :: pystr

text \<open>
  The constructor calls of the provider loops. \<open>cfg["..."]\<close> raises \<open>KeyError\<close> on
  an absent key and \<open>TypeError\<close> when the entry is no mapping; the arguments are
  evaluated in the order they are written.
\<close>

definition make_LLMProvider ::
  "(pystr \<Rightarrow> error + int) \<Rightarrow> pystr \<Rightarrow> pyval \<Rightarrow> error + LLMProvider" where
  "make_LLMProvider parse n cfg =
     and_then (getitem_key cfg (py ''provider_type'')) (\<lambda>pt.
     and_then (getitem_key cfg (py ''endpoint'')) (\<lambda>ep.
     and_then (py_get cfg (py ''api_key'') (PStr [])) (\<lambda>ak.
     and_then (getitem_key cfg (py ''model'')) (\<lambda>m.
     and_then (and_then (py_get cfg (py ''timeout_ms'') (PNum 10000)) (py_int parse)) (\<lambda>t.
     and_then (and_then (py_get cfg (py ''retries'') (PNum 3)) (py_int parse)) (\<lambda>r.
       Inr \<lparr>name = n, provider_type = pt, endpoint = ep, api_key = ak, model = m,
            timeout_ms = t, retries = r\<rparr>))))))"

definition make_EmbeddingProvider ::
  "(pystr \<Rightarrow> error + int) \<Rightarrow> pystr \<Rightarrow> pyval \<Rightarrow> error + EmbeddingProvider" where
  "make_EmbeddingProvider parse n cfg =
     and_then (getitem_key cfg (py ''provider_type'')) (\<lambda>pt.
     and_then (getitem_key cfg (py ''endpoint'')) (\<lambda>ep.
     and_then (py_get cfg (py ''api_key'') (PStr [])) (\<lambda>ak.
     and_then (getitem_key cfg (py ''model'')) (\<lambda>m.
     and_then (and_then (getitem_key cfg (py ''embedding_dim'')) (py_int parse)) (\<lambda>d.
     and_then (and_then (py_get cfg (py ''timeout_ms'') (PNum 5000)) (py_int parse)) (\<lambda>t.
     and_then (and_then (py_get cfg (py ''retries'') (PNum 3)) (py_int parse)) (\<lambda>r.
       Inr \<lparr>name = n, provider_type = pt, endpoint = ep, api_key = ak, model = m,
            timeout_ms = t, retries = r, embedding_dim = d\<rparr>)))))))"

text \<open>\<open>for name, cfg in providers_cfg.items(): providers[name] = ...\<close>\<close>

fun load_providers ::
  "(pystr \<Rightarrow> pyval \<Rightarrow> error + 'p) \<Rightarrow> (pystr \<times> pyval) list
     \<Rightarrow> (pystr \<rightharpoonup> 'p) \<Rightarrow> error + (pystr \<rightharpoonup> 'p)" where
  "load_providers mk [] acc = Inr acc"
| "load_providers mk ((n, cfg) # rest) acc =
     (case mk n cfg of
        Inl e \<Rightarrow> Inl e
      | Inr p \<Rightarrow> load_providers mk rest (acc(n \<mapsto> p)))"

text \<open>\<open>LLMRoute(name=..., strategy=rcfg["strategy"], providers=rcfg["providers"],
  weights=rcfg.get("weights"))\<close>\<close>

definition make_Route :: "pystr \<Rightarrow> pyval \<Rightarrow> error + Route" where
  "make_Route n rcfg =
     and_then (getitem_key rcfg (py ''strategy'')) (\<lambda>st.
     and_then (getitem_key rcfg (py ''providers'')) (\<lambda>ps.
     and_then (py_get rcfg (py ''weights'') PNone) (\<lambda>ws.
       Inr \<lparr>route_name = n, strategy = st, providers = ps, weights = ws\<rparr>)))"

text \<open>
  The route loop: the entry named \<open>default\<close> becomes the default route, every other
  entry goes into the table.
\<close>

fun load_routes ::
  "(pystr \<times> pyval) list \<Rightarrow> (pystr \<rightharpoonup> Route) \<Rightarrow> Route option
     \<Rightarrow> error + ((pystr \<rightharpoonup> Route) \<times> Route option)" where
  "load_routes [] acc dflt = Inr (acc, dflt)"
| "load_routes ((n, rcfg) # rest) acc dflt =
     (case make_Route n rcfg of
        Inl e \<Rightarrow> Inl e
      | Inr route \<Rightarrow>
          if n = py ''default'' then load_routes rest acc (Some route)
          else load_routes rest (acc(n \<mapsto> route)) dflt)"

text \<open>
  \<open>from_yaml_file\<close> from \<open>data = yaml.safe_load(f)\<close> on, up to the call of the
  class constructor; \<open>msg\<close> is the message of the \<open>ValueError\<close> for a missing
  default route. An empty file gives \<open>data = None\<close>.
\<close>

definition from_yaml ::
  "(pystr \<Rightarrow> pyval \<Rightarrow> error + 'p) \<Rightarrow> pystr \<Rightarrow> pyval \<Rightarrow> error + 'p Router" where
  "from_yaml mk msg data =
     and_then (py_get data (py ''providers'') (PDict [])) (\<lambda>providers_cfg.
     and_then (py_get data (py ''routes'') (PDict [])) (\<lambda>routes_cfg.
     and_then (py_items providers_cfg) (\<lambda>provider_items.
     and_then (load_providers mk provider_items Map.empty) (\<lambda>provs.
     and_then (py_items routes_cfg) (\<lambda>route_items.
     and_then (load_routes route_items Map.empty None) (\<lambda>loaded.
       case snd loaded of
         None \<Rightarrow> Inl (ValueError msg)
       | Some d \<Rightarrow>
           Inr \<lparr>router_providers = provs, routes = fst loaded, default_route = d\<rparr>))))))"

definition LLMRouter_from_yaml_file ::
  "(pystr \<Rightarrow> error + int) \<Rightarrow> pyval \<Rightarrow> pystr \<Rightarrow> error + LLMRouter" where
  "LLMRouter_from_yaml_file parse data label =
     and_then
       (from_yaml (make_LLMProvider parse) (py ''llm_routes.yaml must define a 'default' route'')
          data)
       (\<lambda>r. Inr (Router.extend r \<lparr>component = label\<rparr>))"

definition EmbeddingRouter_from_yaml_file ::
  "(pystr \<Rightarrow> error + int) \<Rightarrow> pyval \<Rightarrow> error + EmbeddingProvider Router" where
  "EmbeddingRouter_from_yaml_file parse data =
     from_yaml (make_EmbeddingProvider parse)
       (py ''embedding_routes.yaml must define a 'default' route'') data"

text \<open>\<open>self._routes.get(use_case, self._default_route)\<close>, in both routers.\<close>

definition resolve_route :: "('p, 'a) Router_scheme \<Rightarrow> pystr \<Rightarrow> Route" where
  "resolve_route r use_case =
     (case routes r use_case of None \<Rightarrow> default_route r | Some route \<Rightarrow> route)"

text \<open>
  \<open>self._providers[name]\<close> for one element of \<open>route.providers\<close>: a list or a dict
  cannot be a key, and the keys of the provider table are strings.
\<close>

fun provider_named :: "(pystr \<rightharpoonup> 'p) \<Rightarrow> pyval \<Rightarrow> error + 'p" where
  "provider_named m (PStr n) = (case m n of None \<Rightarrow> Inl (KeyError (PStr n)) | Some p \<Rightarrow> Inr p)"
| "provider_named m (PList xs) = Inl TypeError"
| "provider_named m (PDict kvs) = Inl TypeError"
| "provider_named m v = Inl (KeyError v)"

fun providers_named :: "(pystr \<rightharpoonup> 'p) \<Rightarrow> pyval list \<Rightarrow> error + 'p list" where
  "providers_named m [] = Inr []"
| "providers_named m (n # ns) =
     (case provider_named m n of
        Inl e \<Rightarrow> Inl e
      | Inr p \<Rightarrow>
          (case providers_named m ns of Inl e \<Rightarrow> Inl e | Inr ps \<Rightarrow> Inr (p # ps)))"

text \<open>\<open>[self._providers[name] for name in route.providers]\<close>\<close>

definition lookup_providers :: "(pystr \<rightharpoonup> 'p) \<Rightarrow> pyval \<Rightarrow> error + 'p list" where
  "lookup_providers m names = and_then (py_iter names) (providers_named m)"

text \<open>
  The items of a section of the document, for stating properties of the loaders:
  empty when the document or the section is no mapping.
\<close>

definition section_items :: "pyval \<Rightarrow> pystr \<Rightarrow> (pystr \<times> pyval) list" where
  "section_items data k =
     (case data of
        PDict kvs \<Rightarrow> (case map_of kvs k of Some (PDict es) \<Rightarrow> es | _ \<Rightarrow> [])
      | _ \<Rightarrow> [])"

text \<open>
  An entry that the constructor calls accept: a mapping with the keys that are
  read by subscript, whose integer fields convert.
\<close>

definition llm_entry_ok :: "(pystr \<Rightarrow> error + int) \<Rightarrow> pyval \<Rightarrow> bool" where
  "llm_entry_ok parse cfg =
     (case cfg of
        PDict c \<Rightarrow>
          map_of c (py ''provider_type'') \<noteq> None \<and> map_of c (py ''endpoint'') \<noteq> None
          \<and> map_of c (py ''model'') \<noteq> None
          \<and> \<not> isl (py_int parse (case map_of c (py ''timeout_ms'') of None \<Rightarrow> PNum 10000 | Some v \<Rightarrow> v))
          \<and> \<not> isl (py_int parse (case map_of c (py ''retries'') of None \<Rightarrow> PNum 3 | Some v \<Rightarrow> v))
      | _ \<Rightarrow> False)"

definition embedding_entry_ok :: "(pystr \<Rightarrow> error + int) \<Rightarrow> pyval \<Rightarrow> bool" where
  "embedding_entry_ok parse cfg =
     (case cfg of
        PDict c \<Rightarrow>
          map_of c (py ''provider_type'') \<noteq> None \<and> map_of c (py ''endpoint'') \<noteq> None
          \<and> map_of c (py ''model'') \<noteq> None
          \<and> (case map_of c (py ''embedding_dim'') of None \<Rightarrow> False | Some v \<Rightarrow> \<not> isl (py_int parse v))
          \<and> \<not> isl (py_int parse (case map_of c (py ''timeout_ms'') of None \<Rightarrow> PNum 5000 | Some v \<Rightarrow> v))
          \<and> \<not> isl (py_int parse (case map_of c (py ''retries'') of None \<Rightarrow> PNum 3 | Some v \<Rightarrow> v))
      | _ \<Rightarrow> False)"

definition route_entry_ok :: "pyval \<Rightarrow> bool" where
  "route_entry_ok rcfg =
     (case rcfg of
        PDict c \<Rightarrow> map_of c (py ''strategy'') \<noteq> None \<and> map_of c (py ''providers'') \<noteq> None
      | _ \<Rightarrow> False)"

section \<open>Collaborators and effects\<close>

text \<open>
  What a call does to the outside world is a list of events, oldest first: an HTTP
  request sent for a provider (its name and the JSON body), a read of the cache and
  a write to it (key, value, TTL). Every function below takes the events so far and
  returns them extended.
\<close>

datatype event =
    Post pystr pyval
  | CacheGet pystr
  | CacheSet pystr pystr int

text \<open>
  The collaborators are parameters; each may answer differently depending on what
  has happened so far.
  \<^item> \<open>http_post\<close>: \<open>client.post(endpoint, headers=..., json=payload)\<close> under the
    client's timeout, followed by \<open>resp.raise_for_status()\<close> and \<open>resp.json()\<close>:
    the decoded body, or the exception one of the three raised.
  \<^item> \<open>redis_get\<close>, \<open>redis_set\<close>: the \<open>redis.asyncio\<close> client's \<open>get\<close> and
    \<open>set(key, value, ex=ttl)\<close>.
  \<^item> \<open>random_choices\<close>: \<open>random.choices(population, weights=weights, k=1)[0]\<close>.
  \<^item> \<open>py_str\<close>, \<open>sha256_hexdigest\<close>, \<open>json_loads\<close>, \<open>json_dumps\<close>: \<open>str\<close>,
    \<open>hashlib.sha256(s.encode("utf-8")).hexdigest()\<close>, \<open>json.loads\<close>, \<open>json.dumps\<close>.
\<close>

record env =
  http_post :: "event list \<Rightarrow> pyval \<Rightarrow> (pystr \<times> pystr) list \<Rightarrow> int \<Rightarrow> pyval \<Rightarrow> error + pyval"
  redis_get :: "event list \<Rightarrow> pystr \<Rightarrow> error + pystr option"
  redis_set :: "event list \<Rightarrow> pystr \<Rightarrow> pystr \<Rightarrow> int \<Rightarrow> error + unit"
  random_choices :: "LLMProvider list \<Rightarrow> pyval \<Rightarrow> error + LLMProvider"
  py_str :: "pyval \<Rightarrow> pystr"
  sha256_hexdigest :: "pystr \<Rightarrow> pystr"
  json_loads :: "pystr \<Rightarrow> error + pyval"
  json_dumps :: "pyval \<Rightarrow> pystr"

text \<open>The \<open>Authorization\<close> header, set when the provider's API key is truthy.\<close>

definition auth_headers :: "(pyval \<Rightarrow> pystr) \<Rightarrow> 'a LLMProvider_scheme \<Rightarrow> (pystr \<times> pystr) list" where
  "auth_headers str p =
     (if truthy (api_key p) then [(py ''Authorization'', py ''Bearer '' @ fmt str (api_key p))]
      else [])"

section \<open>LLMRouter: text generation\<close>

definition build_payload :: "LLMProvider \<Rightarrow> pystr \<Rightarrow> pyval" where
  "build_payload p prompt =
     (if provider_type p = PStr (py ''azure_openai'')
      then PDict [(py ''messages'',
                   PList [PDict [(py ''role'', PStr (py ''user'')), (py ''content'', PStr prompt)]]),
                  (py ''model'', model p)]
      else if provider_type p = PStr (py ''groq'')
      then PDict [(py ''messages'',
                   PList [PDict [(py ''role'', PStr (py ''user'')), (py ''content'', PStr prompt)]]),
                  (py ''model'', model p)]
      else if provider_type p = PStr (py ''huggingface_api'')
      then PDict [(py ''inputs'', PStr prompt)]
      else PDict [(py ''input'', PStr prompt), (py ''model'', model p)])"

text \<open>
  \<open>_extract_text\<close>. Python does not check that the extracted value is a string, so
  the result is whatever value sits at that place.
\<close>

definition extract_text :: "(pyval \<Rightarrow> pystr) \<Rightarrow> LLMProvider \<Rightarrow> pyval \<Rightarrow> error + pyval" where
  "extract_text str p data =
     and_then (in_str_set (provider_type p) [py ''azure_openai'', py ''groq'']) (\<lambda>chat.
       if chat
       then and_then (getitem_key data (py ''choices'')) (\<lambda>choices.
            and_then (getitem_0 choices) (\<lambda>choice.
            and_then (getitem_key choice (py ''message'')) (\<lambda>message.
            getitem_key message (py ''content''))))
       else if provider_type p = PStr (py ''huggingface_api'')
       then (case data of
               PList (PDict item # rest) \<Rightarrow>
                 (case map_of item (py ''generated_text'') of
                    Some generated \<Rightarrow> Inr generated
                  | None \<Rightarrow> Inr (PStr (str data)))
             | _ \<Rightarrow> Inr (PStr (str data)))
       else Inr (PStr (str data)))"

text \<open>
  The body of the \<open>try\<close> block of \<open>LLMRouter._call_provider\<close>: build the payload,
  send it, decode the response, extract the text.
\<close>

definition attempt_once :: "env \<Rightarrow> LLMProvider \<Rightarrow> pystr \<Rightarrow> event list \<Rightarrow> error + pyval" where
  "attempt_once w p prompt evs =
     and_then (http_post w evs (endpoint p) (auth_headers (py_str w) p) (timeout_ms p)
                 (build_payload p prompt))
       (extract_text (py_str w) p)"

text \<open>
  The retry loop of \<open>LLMRouter._call_provider\<close>,
  \<open>for attempt in range(1, provider.retries + 1)\<close>, over the attempt numbers still to
  run. Whatever the \<open>try\<close> block raises is caught; it is raised again only when
  \<open>attempt == provider.retries\<close>. After the loop comes the \<open>RuntimeError\<close>. There is
  no statement between two attempts.
\<close>

fun call_attempts ::
  "env \<Rightarrow> LLMProvider \<Rightarrow> pystr \<Rightarrow> int list \<Rightarrow> event list \<Rightarrow> (error + pyval) \<times> event list" where
  "call_attempts w p prompt [] evs =
     (Inl (RuntimeError (py ''LLM provider retries exhausted'')), evs)"
| "call_attempts w p prompt (attempt # rest) evs =
     (let evs' = evs @ [Post (name p) (build_payload p prompt)]
      in case attempt_once w p prompt evs of
           Inr reply \<Rightarrow> (Inr reply, evs')
         | Inl exc \<Rightarrow>
             if attempt = retries p then (Inl exc, evs')
             else call_attempts w p prompt rest evs')"

text \<open>
  \<open>LLMRouter._call_provider\<close>. Its first statement is
  \<open>get_logger(self._component, "llm", f"_call_{provider.provider_type}", trace_id)\<close>,
  outside every \<open>try\<close>.
\<close>

definition call_provider ::
  "env \<Rightarrow> pystr \<Rightarrow> LLMProvider \<Rightarrow> pystr \<Rightarrow> pyval \<Rightarrow> event list
     \<Rightarrow> (error + pyval) \<times> event list" where
  "call_provider w label p prompt trace_id evs =
     (case get_logger [PStr label, PStr (py ''llm''),
                       PStr (py ''_call_'' @ fmt (py_str w) (provider_type p)), trace_id] of
        Inl e \<Rightarrow> (Inl e, evs)
      | Inr lg \<Rightarrow> call_attempts w p prompt [1..retries p] evs)"

text \<open>
  The \<open>primary-fallback\<close> loop of \<open>generate\<close>; \<open>last_error\<close> is the exception of
  the provider tried last. The handler logs with \<open>logger.error(..., ka_code=...)\<close>
  before it continues; an exception of that call leaves the handler and \<open>generate\<close>.
\<close>

fun generate_fallback ::
  "env \<Rightarrow> pystr \<Rightarrow> logger \<Rightarrow> LLMProvider list \<Rightarrow> pystr \<Rightarrow> pyval \<Rightarrow> error option
     \<Rightarrow> event list \<Rightarrow> (error + pyval) \<times> event list" where
  "generate_fallback w label lg [] prompt trace_id last_error evs =
     (case last_error of
        Some exc \<Rightarrow> (Inl exc, evs)
      | None \<Rightarrow>
          (Inl (RuntimeError (py ''LLM routing failed without explicit exception'')), evs))"
| "generate_fallback w label lg (p # ps) prompt trace_id last_error evs =
     (case call_provider w label p prompt trace_id evs of
        (Inr reply, evs') \<Rightarrow> (Inr reply, evs')
      | (Inl exc, evs') \<Rightarrow>
          (case logger_error_ka_code lg of
             Inl e \<Rightarrow> (Inl e, evs')
           | Inr u \<Rightarrow> generate_fallback w label lg ps prompt trace_id (Some exc) evs'))"

text \<open>
  \<open>LLMRouter.generate\<close>. Its first statement is
  \<open>get_logger(self._component, "llm", "LLMRouter.generate", trace_id)\<close>.
\<close>

definition generate ::
  "env \<Rightarrow> LLMRouter \<Rightarrow> pystr \<Rightarrow> pystr \<Rightarrow> pyval \<Rightarrow> event list
     \<Rightarrow> (error + pyval) \<times> event list" where
  "generate w r prompt use_case trace_id evs =
     (case get_logger [PStr (component r), PStr (py ''llm''), PStr (py ''LLMRouter.generate''),
                       trace_id] of
        Inl e \<Rightarrow> (Inl e, evs)
      | Inr lg \<Rightarrow>
          (let route = resolve_route r use_case
           in case lookup_providers (router_providers r) (providers route) of
                Inl e \<Rightarrow> (Inl e, evs)
              | Inr ps \<Rightarrow>
                  if strategy route = PStr (py ''weighted'') \<and> truthy (weights route)
                  then (case random_choices w ps (weights route) of
                          Inl e \<Rightarrow> (Inl e, evs)
                        | Inr p \<Rightarrow> call_provider w (component r) p prompt trace_id evs)
                  else generate_fallback w (component r) lg ps prompt trace_id None evs))"

section \<open>RedisClient and EmbeddingClient\<close>

text \<open>The component label of a \<open>RedisClient\<close>; its connection is the collaborator.\<close>

record RedisClient =
  redis_component :: pystr

text \<open>
  \<open>RedisClient.get\<close> and \<open>RedisClient.set\<close>. The first statement of each is
  \<open>get_logger(self._component, "cache", "redis", trace_id)\<close>, before the \<open>try\<close>. The
  handler logs with \<open>logger.error(..., ka_code=...)\<close> and then raises the exception
  of the Redis client again.
\<close>

definition RedisClient_get ::
  "env \<Rightarrow> RedisClient \<Rightarrow> pystr \<Rightarrow> pyval \<Rightarrow> event list
     \<Rightarrow> (error + pystr option) \<times> event list" where
  "RedisClient_get w rc key trace_id evs =
     (case get_logger [PStr (redis_component rc), PStr (py ''cache''), PStr (py ''redis''),
                       trace_id] of
        Inl e \<Rightarrow> (Inl e, evs)
      | Inr lg \<Rightarrow>
          (case redis_get w evs key of
             Inr v \<Rightarrow> (Inr v, evs @ [CacheGet key])
           | Inl exc \<Rightarrow>
               (case logger_error_ka_code lg of
                  Inl e \<Rightarrow> (Inl e, evs @ [CacheGet key])
                | Inr u \<Rightarrow> (Inl exc, evs @ [CacheGet key]))))"

definition RedisClient_set ::
  "env \<Rightarrow> RedisClient \<Rightarrow> pystr \<Rightarrow> pystr \<Rightarrow> int \<Rightarrow> pyval \<Rightarrow> event list
     \<Rightarrow> (error + unit) \<times> event list" where
  "RedisClient_set w rc key v ttl trace_id evs =
     (case get_logger [PStr (redis_component rc), PStr (py ''cache''), PStr (py ''redis''),
                       trace_id] of
        Inl e \<Rightarrow> (Inl e, evs)
      | Inr lg \<Rightarrow>
          (case redis_set w evs key v ttl of
             Inr u \<Rightarrow> (Inr (), evs @ [CacheSet key v ttl])
           | Inl exc \<Rightarrow>
               (case logger_error_ka_code lg of
                  Inl e \<Rightarrow> (Inl e, evs @ [CacheSet key v ttl])
                | Inr u \<Rightarrow> (Inl exc, evs @ [CacheSet key v ttl]))))"

text \<open>The client: router, cache client, component label and TTL of cache entries.\<close>

record EmbeddingClient =
  client_router :: "EmbeddingProvider Router"
  client_redis :: RedisClient
  client_component :: pystr
  client_ttl :: int

text \<open>The request body of \<open>EmbeddingClient._call_provider\<close>, by provider type.\<close>

definition embedding_payload ::
  "(pyval \<Rightarrow> pystr) \<Rightarrow> EmbeddingProvider \<Rightarrow> pystr \<Rightarrow> error + pyval" where
  "embedding_payload str p text =
     (if provider_type p = PStr (py ''azure_openai'')
      then Inr (PDict [(py ''input'', PStr text), (py ''model'', model p)])
      else and_then (in_str_set (provider_type p)
                       [py ''huggingface_api'', py ''huggingface_endpoint'']) (\<lambda>hf.
        if hf then Inr (PDict [(py ''inputs'', PStr text)])
        else and_then (in_str_set (provider_type p) [py ''groq'', py ''ollama'']) (\<lambda>gq.
          if gq then Inr (PDict [(py ''input'', PStr text), (py ''model'', model p)])
          else Inl (ValueError (py ''Unknown provider_type='' @ fmt str (provider_type p))))))"

text \<open>The response shapes, brought to one vector.\<close>

definition response_vector :: "EmbeddingProvider \<Rightarrow> pyval \<Rightarrow> error + pyval" where
  "response_vector p data =
     (if provider_type p = PStr (py ''azure_openai'')
      then and_then (getitem_key data (py ''data'')) (\<lambda>rows.
           and_then (getitem_0 rows) (\<lambda>row. getitem_key row (py ''embedding'')))
      else and_then (in_str_set (provider_type p)
                       [py ''huggingface_api'', py ''huggingface_endpoint'']) (\<lambda>hf.
        if hf
        then (case data of
                PList (PList row # rest) \<Rightarrow> Inr (PList row)
              | _ \<Rightarrow> Inr data)
        else and_then (in_str_set (provider_type p) [py ''groq'', py ''ollama'']) (\<lambda>gq.
          if gq
          then and_then (getitem_key data (py ''data'')) (\<lambda>rows.
               and_then (getitem_0 rows) (\<lambda>row. getitem_key row (py ''embedding'')))
          else Inr data)))"

text \<open>
  \<open>EmbeddingClient._call_provider\<close>: \<open>get_logger\<close> with four arguments first, then one
  request, no retry. The final log line takes \<open>len(vector)\<close>, which raises for a
  value without a length.
\<close>

definition call_embedding_provider ::
  "env \<Rightarrow> pystr \<Rightarrow> EmbeddingProvider \<Rightarrow> pystr \<Rightarrow> pyval \<Rightarrow> event list
     \<Rightarrow> (error + pyval) \<times> event list" where
  "call_embedding_provider w label p text trace_id evs =
     (case get_logger [PStr label, PStr (py ''embed''),
                       PStr (py ''_call_'' @ fmt (py_str w) (provider_type p)), trace_id] of
        Inl e \<Rightarrow> (Inl e, evs)
      | Inr lg \<Rightarrow>
          (case embedding_payload (py_str w) p text of
             Inl e \<Rightarrow> (Inl e, evs)
           | Inr payload \<Rightarrow>
               (let evs' = evs @ [Post (name p) payload]
                in case http_post w evs (endpoint p) (auth_headers (py_str w) p) (timeout_ms p)
                          payload of
                     Inl e \<Rightarrow> (Inl e, evs')
                   | Inr data \<Rightarrow>
                       (case response_vector p data of
                          Inl e \<Rightarrow> (Inl e, evs')
                        | Inr vector \<Rightarrow>
                            (case py_len vector of
                               Inl e \<Rightarrow> (Inl e, evs')
                             | Inr n \<Rightarrow> (Inr vector, evs'))))))"

text \<open>
  How the \<open>try\<close> block of the provider loop ends: with \<open>return vector\<close>, with an
  exception for the handler, or with the \<open>continue\<close> of the dimension check.
\<close>

datatype outcome = Return pyval | Raised error | Continue

text \<open>
  The \<open>try\<close> block of the provider loop of \<open>_embed_single\<close>: call the provider; on a
  vector of the wrong length log with \<open>logger.error(..., ka_code=...)\<close> and continue;
  otherwise write the cache and return the vector. The log call and the cache write
  are inside the block, so their exceptions go to the handler.
\<close>

definition embed_try ::
  "env \<Rightarrow> EmbeddingClient \<Rightarrow> logger \<Rightarrow> pystr \<Rightarrow> pystr \<Rightarrow> EmbeddingProvider \<Rightarrow> pyval
     \<Rightarrow> event list \<Rightarrow> outcome \<times> event list" where
  "embed_try w c lg text cache_key p trace_id evs =
     (case call_embedding_provider w (client_component c) p text trace_id evs of
        (Inl exc, evs1) \<Rightarrow> (Raised exc, evs1)
      | (Inr vector, evs1) \<Rightarrow>
          if py_len vector \<noteq> Inr (embedding_dim p)
          then (case logger_error_ka_code lg of
                  Inl exc \<Rightarrow> (Raised exc, evs1)
                | Inr u \<Rightarrow> (Continue, evs1))
          else (case RedisClient_set w (client_redis c) cache_key (json_dumps w vector)
                       (client_ttl c) trace_id evs1 of
                  (Inl exc, evs2) \<Rightarrow> (Raised exc, evs2)
                | (Inr u, evs2) \<Rightarrow> (Return vector, evs2)))"

text \<open>
  The provider loop of \<open>_embed_single\<close>. The handler sets \<open>last_error\<close>, logs with
  \<open>logger.error(..., ka_code=...)\<close>, whose exception leaves the handler and the
  method, and ends with \<open>if strategy == "primary-fallback": continue\<close> as the last
  statement of the loop body: the loop goes on to the next provider in both cases.
\<close>

fun embed_providers ::
  "env \<Rightarrow> EmbeddingClient \<Rightarrow> logger \<Rightarrow> pyval \<Rightarrow> pystr \<Rightarrow> pystr \<Rightarrow> pyval
     \<Rightarrow> EmbeddingProvider list \<Rightarrow> error option \<Rightarrow> event list
     \<Rightarrow> (error + pyval) \<times> event list" where
  "embed_providers w c lg strat text cache_key trace_id [] last_error evs =
     (case last_error of
        Some exc \<Rightarrow> (Inl exc, evs)
      | None \<Rightarrow>
          (Inl (RuntimeError (py ''Embedding pipeline failed without explicit exception'')),
           evs))"
| "embed_providers w c lg strat text cache_key trace_id (p # ps) last_error evs =
     (case embed_try w c lg text cache_key p trace_id evs of
        (Return vector, evs1) \<Rightarrow> (Inr vector, evs1)
      | (Continue, evs1) \<Rightarrow>
          embed_providers w c lg strat text cache_key trace_id ps last_error evs1
      | (Raised exc, evs1) \<Rightarrow>
          (case logger_error_ka_code lg of
             Inl e \<Rightarrow> (Inl e, evs1)
           | Inr u \<Rightarrow>
               if strat = PStr (py ''primary-fallback'')
               then embed_providers w c lg strat text cache_key trace_id ps (Some exc) evs1
               else embed_providers w c lg strat text cache_key trace_id ps (Some exc) evs1))"

text \<open>
  The cache key of a text: \<open>f"emb:{self._fingerprint(text, primary.model)}"\<close>,
  built from the model of the first provider.
\<close>

definition cache_key_of :: "env \<Rightarrow> pystr \<Rightarrow> 'a EmbeddingProvider_scheme \<Rightarrow> pystr" where
  "cache_key_of w text primary =
     py ''emb:'' @ fingerprint (sha256_hexdigest w) text (fmt (py_str w) (model primary))"

text \<open>
  \<open>_embed_single\<close>. Its first statement is
  \<open>get_logger(self._component, "embed", "_embed_single", trace_id)\<close>. Then
  \<open>providers[0]\<close> raises \<open>IndexError\<close> on an empty list; the cache read is outside
  every \<open>try\<close>; a cached value counts when it is a non-empty string that decodes to
  a list.
\<close>

definition embed_single ::
  "env \<Rightarrow> EmbeddingClient \<Rightarrow> pystr \<Rightarrow> EmbeddingProvider list \<Rightarrow> pyval \<Rightarrow> pyval
     \<Rightarrow> event list \<Rightarrow> (error + pyval) \<times> event list" where
  "embed_single w c text ps strat trace_id evs =
     (case get_logger [PStr (client_component c), PStr (py ''embed''),
                       PStr (py ''_embed_single''), trace_id] of
        Inl e \<Rightarrow> (Inl e, evs)
      | Inr lg \<Rightarrow>
          (case ps of
             [] \<Rightarrow> (Inl IndexError, evs)
           | primary # others \<Rightarrow>
               (let cache_key = cache_key_of w text primary
                in case RedisClient_get w (client_redis c) cache_key trace_id evs of
                     (Inl exc, evs1) \<Rightarrow> (Inl exc, evs1)
                   | (Inr cached, evs1) \<Rightarrow>
                       (case cached of
                          None \<Rightarrow>
                            embed_providers w c lg strat text cache_key trace_id ps None evs1
                        | Some s \<Rightarrow>
                            if s = []
                            then embed_providers w c lg strat text cache_key trace_id ps None evs1
                            else (case json_loads w s of
                                    Inl exc \<Rightarrow> (Inl exc, evs1)
                                  | Inr (PList vector) \<Rightarrow> (Inr (PList vector), evs1)
                                  | Inr other \<Rightarrow>
                                      embed_providers w c lg strat text cache_key trace_id ps
                                        None evs1)))))"

text \<open>The loop of \<open>embed\<close> over the texts; \<open>results\<close> is the list built so far.\<close>

fun embed_texts ::
  "env \<Rightarrow> EmbeddingClient \<Rightarrow> EmbeddingProvider list \<Rightarrow> pyval \<Rightarrow> pyval \<Rightarrow> pystr list
     \<Rightarrow> pyval list \<Rightarrow> event list \<Rightarrow> (error + pyval list) \<times> event list" where
  "embed_texts w c ps strat trace_id [] results evs = (Inr results, evs)"
| "embed_texts w c ps strat trace_id (text # texts) results evs =
     (case embed_single w c text ps strat trace_id evs of
        (Inl exc, evs') \<Rightarrow> (Inl exc, evs')
      | (Inr vector, evs') \<Rightarrow>
          embed_texts w c ps strat trace_id texts (results @ [vector]) evs')"

text \<open>
  \<open>EmbeddingClient.embed\<close>. Its first statement is
  \<open>get_logger(self._component, "embed", "EmbeddingClient", trace_id)\<close>.
\<close>

definition embed ::
  "env \<Rightarrow> EmbeddingClient \<Rightarrow> pystr list \<Rightarrow> pystr \<Rightarrow> pyval \<Rightarrow> event list
     \<Rightarrow> (error + pyval list) \<times> event list" where
  "embed w c texts use_case trace_id evs =
     (case get_logger [PStr (client_component c), PStr (py ''embed''),
                       PStr (py ''EmbeddingClient''), trace_id] of
        Inl e \<Rightarrow> (Inl e, evs)
      | Inr lg \<Rightarrow>
          (let route = resolve_route (client_router c) use_case
           in case lookup_providers (router_providers (client_router c)) (providers route) of
                Inl e \<Rightarrow> (Inl e, evs)
              | Inr ps \<Rightarrow> embed_texts w c ps (strategy route) trace_id texts [] evs))"

section \<open>Documents that load\<close>

text \<open>
  The documents on which the loader raises nothing: a mapping whose \<open>providers\<close>
  and \<open>routes\<close> sections (empty when the key is absent) are mappings, with every
  provider entry and every route entry accepted by its constructor call, and with a
  route named \<open>default\<close>.
\<close>

definition doc_ok :: "(pyval \<Rightarrow> bool) \<Rightarrow> pyval \<Rightarrow> bool" where
  "doc_ok entry_ok data =
     (case data of
        PDict kvs \<Rightarrow>
          (case py_items (case map_of kvs (py ''providers'') of None \<Rightarrow> PDict [] | Some v \<Rightarrow> v) of
             Inl e \<Rightarrow> False
           | Inr ps \<Rightarrow>
               (case py_items (case map_of kvs (py ''routes'') of None \<Rightarrow> PDict [] | Some v \<Rightarrow> v) of
                  Inl e \<Rightarrow> False
                | Inr rs \<Rightarrow>
                    list_all (\<lambda>(n, c). entry_ok c) ps
                    \<and> list_all (\<lambda>(n, c). route_entry_ok c) rs
                    \<and> py ''default'' \<in> set (map fst rs)))
      | _ \<Rightarrow> False)"

section \<open>Example documents and routers\<close>

text \<open>
  \<open>no_parse\<close> is an \<open>int()\<close> on strings that accepts no string; the example
  documents hold numbers only.
\<close>

definition no_parse :: "pystr \<Rightarrow> error + int" where
  "no_parse s = Inl (ValueError (py ''invalid literal for int() with base 10''))"

definition cfg_A :: pyval where
  "cfg_A = PDict [(py ''provider_type'', PStr (py ''azure_openai'')),
                  (py ''endpoint'', PStr (py ''https://a.example'')),
                  (py ''model'', PStr (py ''model-a'')),
                  (py ''embedding_dim'', PNum 768),
                  (py ''retries'', PNum 2)]"

definition cfg_B :: pyval where
  "cfg_B = PDict [(py ''provider_type'', PStr (py ''groq'')),
                  (py ''endpoint'', PStr (py ''https://b.example'')),
                  (py ''api_key'', PStr (py ''key-b'')),
                  (py ''model'', PStr (py ''model-b'')),
                  (py ''embedding_dim'', PNum 768)]"

definition cfg_no_model :: pyval where
  "cfg_no_model = PDict [(py ''provider_type'', PStr (py ''groq'')),
                         (py ''endpoint'', PStr (py ''https://c.example'')),
                         (py ''embedding_dim'', PNum 768)]"

definition rcfg_fallback :: "string list \<Rightarrow> pyval" where
  "rcfg_fallback ns = PDict [(py ''strategy'', PStr (py ''primary-fallback'')),
                             (py ''providers'', PList (map (\<lambda>n. PStr (py n)) ns))]"

definition rcfg_weighted :: "string list \<Rightarrow> rat list \<Rightarrow> pyval" where
  "rcfg_weighted ns ws = PDict [(py ''strategy'', PStr (py ''weighted'')),
                                (py ''providers'', PList (map (\<lambda>n. PStr (py n)) ns)),
                                (py ''weights'', PList (map PNum ws))]"

definition doc_of :: "(pystr \<times> pyval) list \<Rightarrow> (pystr \<times> pyval) list \<Rightarrow> pyval" where
  "doc_of ps rs = PDict [(py ''providers'', PDict ps), (py ''routes'', PDict rs)]"

definition doc_weights_1_0 :: pyval where
  "doc_weights_1_0 =
     doc_of [(py ''A'', cfg_A), (py ''B'', cfg_B)]
            [(py ''default'', rcfg_weighted [''A'', ''B''] [1, 0])]"

definition doc_unknown_provider :: pyval where
  "doc_unknown_provider =
     doc_of [(py ''A'', cfg_A), (py ''B'', cfg_B)]
            [(py ''default'', rcfg_fallback [''A'', ''Z''])]"

definition doc_no_default :: pyval where
  "doc_no_default =
     doc_of [(py ''A'', cfg_A), (py ''B'', cfg_B)]
            [(py ''authoring.generate'', rcfg_fallback [''A'', ''B''])]"

definition doc_no_model :: pyval where
  "doc_no_model =
     doc_of [(py ''A'', cfg_A), (py ''C'', cfg_no_model)]
            [(py ''default'', rcfg_fallback [''A'', ''C''])]"

definition doc_two_routes :: pyval where
  "doc_two_routes =
     doc_of [(py ''A'', cfg_A), (py ''B'', cfg_B)]
            [(py ''authoring.generate'', rcfg_fallback [''B'']),
             (py ''default'', rcfg_fallback [''A'', ''B''])]"

definition provider_A :: LLMProvider where
  "provider_A = \<lparr>name = py ''A'', provider_type = PStr (py ''azure_openai''),
                 endpoint = PStr (py ''https://a.example''), api_key = PStr [],
                 model = PStr (py ''model-a''), timeout_ms = 10000, retries = 2\<rparr>"

definition provider_B :: LLMProvider where
  "provider_B = \<lparr>name = py ''B'', provider_type = PStr (py ''groq''),
                 endpoint = PStr (py ''https://b.example''), api_key = PStr (py ''key-b''),
                 model = PStr (py ''model-b''), timeout_ms = 10000, retries = 3\<rparr>"

definition route_of :: "string \<Rightarrow> string \<Rightarrow> string list \<Rightarrow> pyval \<Rightarrow> Route" where
  "route_of n st ns ws = \<lparr>route_name = py n, strategy = PStr (py st),
                          providers = PList (map (\<lambda>n. PStr (py n)) ns), weights = ws\<rparr>"

definition llm_router_two_routes :: LLMRouter where
  "llm_router_two_routes =
     \<lparr>router_providers = [py ''A'' \<mapsto> provider_A, py ''B'' \<mapsto> provider_B],
      routes = [py ''authoring.generate'' \<mapsto>
                  route_of ''authoring.generate'' ''primary-fallback'' [''B''] PNone],
      default_route = route_of ''default'' ''primary-fallback'' [''A'', ''B''] PNone,
      component = py ''common''\<rparr>"

section \<open>Example routers, clients and collaborators\<close>

text \<open>
  Concrete routers and clients, and collaborators with a fixed behaviour, at which
  the entry points are evaluated below.
\<close>

definition llm_router_weighted :: LLMRouter where
  "llm_router_weighted =
     \<lparr>router_providers = [py ''A'' \<mapsto> provider_A, py ''B'' \<mapsto> provider_B],
      routes = Map.empty,
      default_route = route_of ''default'' ''weighted'' [''A'', ''B'']
                        (PList [PNum (7 / 10), PNum (3 / 10)]),
      component = py ''common''\<rparr>"

definition llm_router_weighted_no_weights :: LLMRouter where
  "llm_router_weighted_no_weights =
     \<lparr>router_providers = [py ''A'' \<mapsto> provider_A, py ''B'' \<mapsto> provider_B],
      routes = Map.empty,
      default_route = route_of ''default'' ''weighted'' [''A'', ''B''] PNone,
      component = py ''common''\<rparr>"

definition emb_A :: EmbeddingProvider where
  "emb_A = \<lparr>name = py ''A'', provider_type = PStr (py ''azure_openai''),
            endpoint = PStr (py ''https://a.example''), api_key = PStr [],
            model = PStr (py ''model-a''), timeout_ms = 5000, retries = 2,
            embedding_dim = 768\<rparr>"

definition emb_B :: EmbeddingProvider where
  "emb_B = \<lparr>name = py ''B'', provider_type = PStr (py ''groq''),
            endpoint = PStr (py ''https://b.example''), api_key = PStr (py ''key-b''),
            model = PStr (py ''model-b''), timeout_ms = 5000, retries = 3,
            embedding_dim = 768\<rparr>"

definition embedding_client_of :: "Route \<Rightarrow> EmbeddingClient" where
  "embedding_client_of route =
     \<lparr>client_router = \<lparr>router_providers = [py ''A'' \<mapsto> emb_A, py ''B'' \<mapsto> emb_B],
                        routes = Map.empty, default_route = route\<rparr>,
      client_redis = \<lparr>redis_component = py ''common''\<rparr>,
      client_component = py ''common'',
      client_ttl = 604800\<rparr>"

definition embedding_client_fallback :: EmbeddingClient where
  "embedding_client_fallback =
     embedding_client_of (route_of ''default'' ''primary-fallback'' [''A'', ''B''] PNone)"

definition embedding_client_weighted :: EmbeddingClient where
  "embedding_client_weighted =
     embedding_client_of (route_of ''default'' ''weighted'' [''A'', ''B'']
                            (PList [PNum (7 / 10), PNum (3 / 10)]))"

text \<open>A chat completion response carrying \<open>s\<close>, and an embedding response carrying \<open>v\<close>.\<close>

definition chat_reply :: "pystr \<Rightarrow> pyval" where
  "chat_reply s =
     PDict [(py ''choices'', PList [PDict [(py ''message'', PDict [(py ''content'', PStr s)])]])]"

definition embedding_reply :: "pyval list \<Rightarrow> pyval" where
  "embedding_reply v = PDict [(py ''data'', PList [PDict [(py ''embedding'', PList v)]])]"

text \<open>
  Every request is answered, by a chat completion or by a vector of \<open>n\<close> zeros; the
  cache is empty and accepts every write; \<open>random.choices\<close> picks the first of the
  population.
\<close>

definition env_quiet :: "nat \<Rightarrow> env" where
  "env_quiet n =
     \<lparr>http_post = (\<lambda>evs url headers t payload.
        case payload of
          PDict ((k, v) # rest) \<Rightarrow>
            if k = py ''messages'' then Inr (chat_reply (py ''hello back''))
            else Inr (embedding_reply (replicate n (PNum 0)))
        | _ \<Rightarrow> Inr (embedding_reply (replicate n (PNum 0)))),
      redis_get = (\<lambda>evs key. Inr None),
      redis_set = (\<lambda>evs key v ttl. Inr ()),
      random_choices = (\<lambda>ps ws. case ps of [] \<Rightarrow> Inl IndexError | p # rest \<Rightarrow> Inr p),
      py_str = (\<lambda>v. py ''?''),
      sha256_hexdigest = (\<lambda>s. s),
      json_loads = (\<lambda>s. Inl JSONDecodeError),
      json_dumps = (\<lambda>v. py ''[]'')\<rparr>"

text \<open>Every request to the endpoint of provider A times out.\<close>

definition env_A_down :: env where
  "env_A_down =
     (env_quiet 768)\<lparr>http_post := (\<lambda>evs url headers t payload.
        if url = PStr (py ''https://a.example'') then Inl TimeoutException
        else http_post (env_quiet 768) evs url headers t payload)\<rparr>"




text \<open>Every key of the cache holds the vector \<open>[0.5]\<close>.\<close>

definition env_cache_hit :: env where
  "env_cache_hit =
     (env_quiet 768)\<lparr>redis_get := (\<lambda>evs key. Inr (Some (py ''[0.5]''))),
                     json_loads := (\<lambda>s. Inr (PList [PNum (1 / 2)]))\<rparr>"

section \<open>Normalisation and fingerprint\<close>

lemma py_eq_iff [simp]: "py s = py t \<longleftrightarrow> s = t"
  by (simp add: py_def inj_map_eq_map[OF inj_of_char])

lemma py_space: "py '' '' = [32]"
  by (simp add: py_def)

lemma is_space_32: "is_space 32"
  by (simp add: is_space_def)

lemma split_scan_space_prefix:
  "list_all is_space w \<Longrightarrow> split_scan (w @ v) [] = split_scan v []"
  by (induction w) simp_all

lemma split_scan_cut:
  "is_space c \<Longrightarrow> split_scan (u @ c # v) cur = split_scan u cur @ split_scan v []"
  by (induction u arbitrary: cur) simp_all

lemma split_scan_space_suffix:
  "list_all is_space w \<Longrightarrow> split_scan (u @ w) cur = split_scan u cur"
proof (induction w arbitrary: u rule: rev_induct)
  case Nil
  then show ?case by simp
next
  case (snoc c w)
  then have "split_scan ((u @ w) @ c # []) cur = split_scan (u @ w) cur @ split_scan [] []"
    using split_scan_cut[of c "u @ w" "[]" cur] by simp
  with snoc show ?case by simp
qed

lemma split_scan_run:
  assumes "w \<noteq> []" "list_all is_space w"
  shows "split_scan (u @ w @ v) cur = split_scan u cur @ split_scan v []"
proof -
  obtain c w' where w: "w = c # w'" using assms(1) by (cases w) auto
  with assms(2) have c: "is_space c" and w': "list_all is_space w'" by auto
  show ?thesis
    using split_scan_cut[OF c, of u "w' @ v" cur] split_scan_space_prefix[OF w', of v]
    by (simp add: w)
qed

lemma ws_edit_split: "ws_edit s t \<Longrightarrow> py_split s = py_split t"
proof (induction rule: ws_edit.induct)
  case (inner w1 w2 u v)
  then show ?case by (simp add: py_split_def split_scan_run)
next
  case (leading w1 w2 v)
  then show ?case by (simp add: py_split_def split_scan_space_prefix)
next
  case (trailing w1 w2 u)
  then show ?case by (simp add: py_split_def split_scan_space_suffix)
qed simp_all

lemma split_scan_words:
  "\<not> list_ex is_space cur \<Longrightarrow> list_all word_ok (split_scan s cur)"
  by (induction s cur rule: split_scan.induct) (auto simp: word_ok_def list_ex_iff)

lemma split_scan_concat:
  "\<not> list_ex is_space cur \<Longrightarrow>
     concat (split_scan s cur) = rev cur @ filter (\<lambda>c. \<not> is_space c) s"
  by (induction s cur rule: split_scan.induct) (auto simp: list_ex_iff)

lemma split_scan_word:
  "\<not> list_ex is_space w \<Longrightarrow> split_scan w cur = (if cur = [] \<and> w = [] then [] else [rev cur @ w])"
  by (induction w arbitrary: cur) (auto simp: list_ex_iff)

lemma py_join_snoc_sep:
  "ws \<noteq> [] \<Longrightarrow> py_join sep ws @ sep = concat (map (\<lambda>w. w @ sep) ws)"
  by (induction sep ws rule: py_join.induct) simp_all

lemma py_split_join:
  "list_all word_ok ws \<Longrightarrow> py_split (py_join [32] ws) = ws"
proof (induction ws rule: induct_list012)
  case 1
  show ?case by (simp add: py_split_def)
next
  case (2 w)
  then show ?case by (simp add: py_split_def split_scan_word word_ok_def)
next
  case (3 w v vs)
  then have w: "split_scan w [] = [w]" by (simp add: split_scan_word word_ok_def)
  from 3 have "py_split (py_join [32] (v # vs)) = v # vs" by simp
  then show ?case
    using split_scan_cut[OF is_space_32, of w "py_join [32] (v # vs)" "[]"] w
    by (simp add: py_split_def)
qed

lemma split_scan_empty_spaces: "split_scan s [] = [] \<Longrightarrow> list_all is_space s"
proof (induction s)
  case Nil
  show ?case by simp
next
  case (Cons c cs)
  show ?case
  proof (cases "is_space c")
    case True
    with Cons show ?thesis by simp
  next
    case False
    have "split_scan cs [c] \<noteq> []"
      using split_scan_concat[of "[c]" cs] False by (auto simp: list_ex_iff)
    with Cons.prems False show ?thesis by simp
  qed
qed

lemma ws_edit_cong:
  "ws_edit x y \<Longrightarrow> is_space a \<Longrightarrow> ws_edit (u @ a # x) (u @ a # y)"
proof (induction arbitrary: u rule: ws_edit.induct)
  case (inner w1 w2 p v)
  from ws_edit.inner[OF inner(1-4), of "u @ a # p" v] show ?case by simp
next
  case (leading w1 w2 v)
  have "ws_edit (u @ (a # w1) @ v) (u @ (a # w2) @ v)"
    by (rule ws_edit.inner) (use leading in simp_all)
  then show ?case by simp
next
  case (trailing w1 w2 p)
  from ws_edit.trailing[OF trailing(1,2), of "u @ a # p"] show ?case by simp
next
  case (same s)
  show ?case by (rule ws_edit.same)
next
  case (step s t r)
  from step.IH(1)[OF step.prems] step.IH(2)[OF step.prems] show ?case
    by (rule ws_edit.step)
qed

lemma ws_edit_split_scan:
  "ws_edit (rev cur @ s) (py_join [32] (split_scan s cur))"
proof (induction s arbitrary: cur)
  case Nil
  show ?case by (simp add: ws_edit.same)
next
  case (Cons c cs)
  show ?case
  proof (cases "is_space c")
    case False
    with Cons[of "c # cur"] show ?thesis by simp
  next
    case sp: True
    show ?thesis
    proof (cases "cur = []")
      case True
      have "ws_edit ([c] @ cs) ([] @ cs)"
        by (rule ws_edit.leading) (use sp in simp_all)
      with Cons[of "[]"] have "ws_edit (c # cs) (py_join [32] (split_scan cs []))"
        using ws_edit.step by fastforce
      with True sp show ?thesis by simp
    next
      case False
      show ?thesis
      proof (cases "split_scan cs [] = []")
        case True
        from split_scan_empty_spaces[OF this] sp have "list_all is_space (c # cs)" by simp
        then have "ws_edit (rev cur @ (c # cs)) (rev cur @ [])"
          by (intro ws_edit.trailing) simp_all
        with True False sp show ?thesis by simp
      next
        case ne: False
        then obtain v vs where vs: "split_scan cs [] = v # vs" by (cases "split_scan cs []") auto
        from Cons[of "[]"] have "ws_edit cs (py_join [32] (split_scan cs []))" by simp
        from ws_edit_cong[OF this sp, of "rev cur"]
        have 1: "ws_edit (rev cur @ c # cs) (rev cur @ c # py_join [32] (split_scan cs []))" .
        have "ws_edit (rev cur @ [c] @ py_join [32] (split_scan cs []))
                      (rev cur @ [32] @ py_join [32] (split_scan cs []))"
          by (rule ws_edit.inner) (use sp is_space_32 in simp_all)
        with 1 have "ws_edit (rev cur @ c # cs) (rev cur @ [32] @ py_join [32] (split_scan cs []))"
          using ws_edit.step by fastforce
        with False sp vs show ?thesis by simp
      qed
    qed
  qed
qed

lemma normalize_example:
  "normalize_text (py ''a  b'' @ [10, 10] @ py ''c'') = py ''a b c''"
  "normalize_text (py ''a b c'') = py ''a b c''"
  by (simp_all add: normalize_text_def py_split_def is_space_def py_def)

text \<open>
  C8. The normal form of a text is the list of its words, joined by single spaces
  (code point 32) with none at either end: the words are not empty and free of
  whitespace, they hold the non-whitespace characters of the text in order, and
  a text differs from its normal form only in whitespace runs. Whitespace is what
  \<open>str.split()\<close> splits on, the Unicode whitespace included. Hence texts that differ
  only in whitespace runs have the same normal form and, for the same model, the
  same fingerprint; in particular the text made of \<open>a\<close>, two spaces, \<open>b\<close>, two line
  feeds and \<open>c\<close> has the normal form \<open>"a b c"\<close>, which is its own normal form.
\<close>

theorem fingerprint_stable_under_whitespace:
  "(ws_edit s t \<longrightarrow>
      normalize_text s = normalize_text t \<and> fingerprint digest s m = fingerprint digest t m)
   \<and> normalize_text (py ''a  b'' @ [10, 10] @ py ''c'') = py ''a b c''
   \<and> normalize_text (py ''a b c'') = py ''a b c''
   \<and> ws_edit s (normalize_text s)
   \<and> list_all word_ok (py_split s)
   \<and> concat (py_split s) = filter (\<lambda>c. \<not> is_space c) s
   \<and> (py_split s = [] \<longrightarrow> normalize_text s = [])
   \<and> (py_split s \<noteq> [] \<longrightarrow>
        normalize_text s @ [32] = concat (map (\<lambda>w. w @ [32]) (py_split s)))
   \<and> py_split (normalize_text s) = py_split s"
proof -
  have 1: "ws_edit s t \<longrightarrow>
      normalize_text s = normalize_text t \<and> fingerprint digest s m = fingerprint digest t m"
    using ws_edit_split[of s t] by (simp add: normalize_text_def fingerprint_def)
  have 2: "list_all word_ok (py_split s)"
    using split_scan_words[of "[]" s] by (simp add: py_split_def)
  have 3: "concat (py_split s) = filter (\<lambda>c. \<not> is_space c) s"
    using split_scan_concat[of "[]" s] by (simp add: py_split_def)
  have 4: "ws_edit s (normalize_text s)"
    using ws_edit_split_scan[of "[]" s] by (simp add: normalize_text_def py_split_def py_space)
  have 5: "py_split s = [] \<longrightarrow> normalize_text s = []"
    by (simp add: normalize_text_def)
  have 6: "py_split s \<noteq> [] \<longrightarrow>
        normalize_text s @ [32] = concat (map (\<lambda>w. w @ [32]) (py_split s))"
    using py_join_snoc_sep[of "py_split s" "[32]"] by (simp add: normalize_text_def py_space)
  have 7: "py_split (normalize_text s) = py_split s"
    using py_split_join[OF 2] by (simp add: normalize_text_def py_space)
  from 1 2 3 4 5 6 7 normalize_example show ?thesis by (intro conjI)
qed

text \<open>
  The two texts of the example, and a text with Unicode whitespace (an em space, an
  ogham space mark, an ideographic space and a line separator); a text of
  whitespace only, and a text of two words.
\<close>

theorem fingerprint_stable_under_whitespace_witness:
  "ws_edit (py ''a  b'' @ [10, 10] @ py ''c'') (py ''a b c'')
   \<and> normalize_text (py ''a  b'' @ [10, 10] @ py ''c'') = normalize_text (py ''a b c'')
   \<and> fingerprint (\<lambda>x. x) (py ''a  b'' @ [10, 10] @ py ''c'') (py ''m'')
       = fingerprint (\<lambda>x. x) (py ''a b c'') (py ''m'')
   \<and> ws_edit [8195, 97, 5760, 12288, 98, 8232] [97, 32, 98]
   \<and> normalize_text [8195, 97, 5760, 12288, 98, 8232] = normalize_text [97, 32, 98]
   \<and> py_split [32, 9, 8232] = []
   \<and> normalize_text [32, 9, 8232] = []
   \<and> py_split [32, 97, 9, 9, 98] \<noteq> []
   \<and> normalize_text [32, 97, 9, 9, 98] @ [32] = [97, 32, 98, 32]"
proof -
  have a: "ws_edit [97, 32, 32, 98, 10, 10, 99] [97, 32, 98, 10, 10, 99]"
    using ws_edit.inner[of "[32, 32]" "[32]" "[97]" "[98, 10, 10, 99]"]
    by (simp add: is_space_def)
  have b: "ws_edit [97, 32, 98, 10, 10, 99] [97, 32, 98, 32, 99]"
    using ws_edit.inner[of "[10, 10]" "[32]" "[97, 32, 98]" "[99]"]
    by (simp add: is_space_def)
  have e: "ws_edit (py ''a  b'' @ [10, 10] @ py ''c'') (py ''a b c'')"
    using ws_edit.step[OF a b] by (simp add: py_def)
  have c: "ws_edit [8195, 97, 5760, 12288, 98, 8232] [97, 5760, 12288, 98, 8232]"
    using ws_edit.leading[of "[8195]" "[]" "[97, 5760, 12288, 98, 8232]"]
    by (simp add: is_space_def)
  have d: "ws_edit [97, 5760, 12288, 98, 8232] [97, 32, 98, 8232]"
    using ws_edit.inner[of "[5760, 12288]" "[32]" "[97]" "[98, 8232]"]
    by (simp add: is_space_def)
  have f: "ws_edit [97, 32, 98, 8232] [97, 32, 98]"
    using ws_edit.trailing[of "[8232]" "[]" "[97, 32, 98]"]
    by (simp add: is_space_def)
  have u: "ws_edit [8195, 97, 5760, 12288, 98, 8232] [97, 32, 98]"
    by (rule ws_edit.step[OF c ws_edit.step[OF d f]])
  note 1 = fingerprint_stable_under_whitespace
        [of "py ''a  b'' @ [10, 10] @ py ''c''" "py ''a b c''" "\<lambda>x. x" "py ''m''",
         THEN conjunct1, THEN mp, OF e]
  note 2 = fingerprint_stable_under_whitespace
        [of "[8195, 97, 5760, 12288, 98, 8232]" "[97, 32, 98]" "\<lambda>x. x" "py ''m''",
         THEN conjunct1, THEN mp, OF u, THEN conjunct1]
  have g: "py_split [32, 9, 8232] = []"
    by (simp add: py_split_def is_space_def)
  have h: "py_split [32, 97, 9, 9, 98] = [97] # [98] # []"
    by (simp add: py_split_def is_space_def)
  then have h': "py_split [32, 97, 9, 9, 98] \<noteq> []" by simp
  note 3 = fingerprint_stable_under_whitespace
        [of "[32, 9, 8232]" "[]" "\<lambda>x. x" "[]",
         THEN conjunct2, THEN conjunct2, THEN conjunct2, THEN conjunct2, THEN conjunct2,
         THEN conjunct2, THEN conjunct1, THEN mp, OF g]
  note 4 = fingerprint_stable_under_whitespace
        [of "[32, 97, 9, 9, 98]" "[]" "\<lambda>x. x" "[]",
         THEN conjunct2, THEN conjunct2, THEN conjunct2, THEN conjunct2, THEN conjunct2,
         THEN conjunct2, THEN conjunct2, THEN conjunct1, THEN mp, OF h']
  from 4 h have 5: "normalize_text [32, 97, 9, 9, 98] @ [32] = [97, 32, 98, 32]" by simp
  from e u 1 2 g 3 h' 5 show ?thesis by (intro conjI) (elim conjE, assumption)+
qed

section \<open>Loading a configuration\<close>

lemma and_then_isl: "isl (and_then x f) \<longleftrightarrow> isl x \<or> (\<exists>v. x = Inr v \<and> isl (f v))"
  by (cases x) (simp_all add: and_then_def)

lemma and_then_Inr: "and_then (Inr v) f = f v"
  by (simp add: and_then_def)

lemma and_then_Inl: "and_then (Inl e) f = Inl e"
  by (simp add: and_then_def)

lemma load_providers_isl:
  "isl (load_providers mk ps acc) \<longleftrightarrow> \<not> list_all (\<lambda>(n, c). \<not> isl (mk n c)) ps"
  by (induction ps arbitrary: acc) (auto split: sum.splits)

lemma make_LLMProvider_isl: "isl (make_LLMProvider parse n c) \<longleftrightarrow> \<not> llm_entry_ok parse c"
  by (cases c)
     (auto simp: make_LLMProvider_def llm_entry_ok_def and_then_def split: option.splits sum.splits)

lemma make_EmbeddingProvider_isl:
  "isl (make_EmbeddingProvider parse n c) \<longleftrightarrow> \<not> embedding_entry_ok parse c"
  by (cases c)
     (auto simp: make_EmbeddingProvider_def embedding_entry_ok_def and_then_def
        split: option.splits sum.splits)

lemma make_Route_isl: "isl (make_Route n c) \<longleftrightarrow> \<not> route_entry_ok c"
  by (cases c)
     (auto simp: make_Route_def route_entry_ok_def and_then_def split: option.splits sum.splits)

lemma load_routes_isl:
  "isl (load_routes rts acc d) \<longleftrightarrow> \<not> list_all (\<lambda>(n, c). route_entry_ok c) rts"
proof (induction rts arbitrary: acc d)
  case Nil
  then show ?case by simp
next
  case (Cons x rts)
  obtain n c where x: "x = (n, c)" by (cases x)
  show ?case
  proof (cases "make_Route n c")
    case (Inl e)
    then show ?thesis using make_Route_isl[of n c] by (simp add: x)
  next
    case (Inr route)
    then have "route_entry_ok c" using make_Route_isl[of n c] by simp
    then show ?thesis using Inr Cons.IH by (simp add: x)
  qed
qed

lemma load_routes_default:
  "load_routes rts acc d = Inr (m, d') \<Longrightarrow>
     (d' = None) = (d = None \<and> py ''default'' \<notin> set (map fst rts))"
proof (induction rts arbitrary: acc d)
  case Nil
  then show ?case by simp
next
  case (Cons x rts)
  obtain n c where x: "x = (n, c)" by (cases x)
  from Cons.prems obtain route where mr: "make_Route n c = Inr route"
    by (cases "make_Route n c") (simp_all add: x)
  show ?case
  proof (cases "n = py ''default''")
    case True
    with Cons.prems mr have "load_routes rts acc (Some route) = Inr (m, d')" by (simp add: x)
    from Cons.IH[OF this] show ?thesis using True by (simp add: x)
  next
    case False
    with Cons.prems mr have "load_routes rts (acc(n \<mapsto> route)) d = Inr (m, d')"
      by (simp add: x)
    from Cons.IH[OF this] show ?thesis using False by (simp add: x)
  qed
qed

lemma load_routes_lookup:
  assumes "load_routes rts acc d = Inr (m, d')" "distinct (map fst rts)"
  shows "(k \<noteq> py ''default'' \<longrightarrow>
           (case map_of rts k of
              None \<Rightarrow> m k = acc k
            | Some c \<Rightarrow> make_Route k c = Inr (the (m k)) \<and> m k \<noteq> None))
         \<and> (case map_of rts (py ''default'') of
              None \<Rightarrow> d' = d
            | Some c \<Rightarrow> make_Route (py ''default'') c = Inr (the d') \<and> d' \<noteq> None)
         \<and> m (py ''default'') = acc (py ''default'')"
  using assms
proof (induction rts arbitrary: acc d)
  case Nil
  then show ?case by simp
next
  case (Cons x rts)
  obtain n c where x: "x = (n, c)" by (cases x)
  from Cons.prems(1) obtain route where mr: "make_Route n c = Inr route"
    by (cases "make_Route n c") (simp_all add: x)
  from Cons.prems(2) have dist: "distinct (map fst rts)" and fresh: "map_of rts n = None"
    by (auto simp: x map_of_eq_None_iff)
  show ?case
  proof (cases "n = py ''default''")
    case True
    with Cons.prems mr have "load_routes rts acc (Some route) = Inr (m, d')" by (simp add: x)
    from Cons.IH[OF this dist] show ?thesis using True mr fresh by (auto simp: x)
  next
    case False
    with Cons.prems mr have "load_routes rts (acc(n \<mapsto> route)) d = Inr (m, d')"
      by (simp add: x)
    from Cons.IH[OF this dist] show ?thesis using False mr fresh
      by (auto simp: x split: option.splits)
  qed
qed

text \<open>What the document looks like when the loader gets as far as the two loops.\<close>

lemma from_yaml_sections:
  "from_yaml mk msg data =
     (case data of
        PDict kvs \<Rightarrow>
          (case py_items (case map_of kvs (py ''providers'') of None \<Rightarrow> PDict [] | Some v \<Rightarrow> v) of
             Inl e \<Rightarrow> Inl e
           | Inr ps \<Rightarrow>
               (case load_providers mk ps Map.empty of
                  Inl e \<Rightarrow> Inl e
                | Inr provs \<Rightarrow>
                    (case py_items (case map_of kvs (py ''routes'') of None \<Rightarrow> PDict [] | Some v \<Rightarrow> v) of
                       Inl e \<Rightarrow> Inl e
                     | Inr rs \<Rightarrow>
                         (case load_routes rs Map.empty None of
                            Inl e \<Rightarrow> Inl e
                          | Inr (rts, None) \<Rightarrow> Inl (ValueError msg)
                          | Inr (rts, Some d) \<Rightarrow>
                              Inr \<lparr>router_providers = provs, routes = rts, default_route = d\<rparr>))))
      | _ \<Rightarrow> Inl AttributeError)"
  by (cases data)
     (simp_all add: from_yaml_def and_then_def split: sum.splits option.splits prod.splits)

lemma from_yaml_isl:
  assumes mk: "\<And>n c. isl (mk n c) \<longleftrightarrow> \<not> entry_ok c"
  shows "isl (from_yaml mk msg data) \<longleftrightarrow> \<not> doc_ok entry_ok data"
proof (cases data)
  case (PDict kvs)
  let ?pv = "case map_of kvs (py ''providers'') of None \<Rightarrow> PDict [] | Some v \<Rightarrow> v"
  let ?rv = "case map_of kvs (py ''routes'') of None \<Rightarrow> PDict [] | Some v \<Rightarrow> v"
  show ?thesis
  proof (cases "py_items ?pv")
    case (Inl e)
    then show ?thesis by (simp add: from_yaml_sections doc_ok_def PDict)
  next
    case ps: (Inr ps)
    have lp: "isl (load_providers mk ps Map.empty) \<longleftrightarrow> \<not> list_all (\<lambda>(n, c). entry_ok c) ps"
      by (simp add: load_providers_isl mk)
    show ?thesis
    proof (cases "load_providers mk ps Map.empty")
      case (Inl e)
      with lp have "\<not> list_all (\<lambda>(n, c). entry_ok c) ps" by simp
      with Inl ps show ?thesis
        by (simp add: from_yaml_sections doc_ok_def PDict split: sum.splits)
    next
      case pr: (Inr provs)
      with lp have okp: "list_all (\<lambda>(n, c). entry_ok c) ps" by simp
      show ?thesis
      proof (cases "py_items ?rv")
        case (Inl e)
        with ps pr show ?thesis by (simp add: from_yaml_sections doc_ok_def PDict)
      next
        case rs: (Inr rs)
        show ?thesis
        proof (cases "load_routes rs Map.empty None")
          case (Inl e)
          then have "\<not> list_all (\<lambda>(n, c). route_entry_ok c) rs"
            using load_routes_isl[of rs Map.empty None] by simp
          with Inl ps pr rs show ?thesis by (simp add: from_yaml_sections doc_ok_def PDict)
        next
          case (Inr res)
          obtain m d where res: "res = (m, d)" by (cases res)
          have r: "list_all (\<lambda>(n, c). route_entry_ok c) rs"
            using load_routes_isl[of rs Map.empty None] Inr by simp
          have d: "d = None \<longleftrightarrow> py ''default'' \<notin> set (map fst rs)"
            using load_routes_default[of rs Map.empty None m d] Inr res by simp
          show ?thesis
            using ps pr rs Inr res okp r d
            by (cases d) (simp_all add: from_yaml_sections doc_ok_def PDict)
        qed
      qed
    qed
  qed
qed (simp_all add: from_yaml_sections doc_ok_def)

lemma LLMRouter_from_yaml_file_isl:
  "isl (LLMRouter_from_yaml_file parse data label) \<longleftrightarrow> \<not> doc_ok (llm_entry_ok parse) data"
  using from_yaml_isl[of "make_LLMProvider parse" "llm_entry_ok parse" _ data]
  by (simp add: LLMRouter_from_yaml_file_def and_then_isl make_LLMProvider_isl)

lemma EmbeddingRouter_from_yaml_file_isl:
  "isl (EmbeddingRouter_from_yaml_file parse data) \<longleftrightarrow> \<not> doc_ok (embedding_entry_ok parse) data"
  using from_yaml_isl[of "make_EmbeddingProvider parse" "embedding_entry_ok parse" _ data]
  by (simp add: EmbeddingRouter_from_yaml_file_def make_EmbeddingProvider_isl)

lemma py_items_Inr: "py_items v = Inr es \<longleftrightarrow> v = PDict es"
  by (cases v) auto

lemma doc_ok_sections:
  assumes "doc_ok entry_ok data"
  obtains kvs ps rs where "data = PDict kvs"
    "(case map_of kvs (py ''providers'') of None \<Rightarrow> PDict [] | Some v \<Rightarrow> v) = PDict ps"
    "(case map_of kvs (py ''routes'') of None \<Rightarrow> PDict [] | Some v \<Rightarrow> v) = PDict rs"
    "list_all (\<lambda>(n, c). entry_ok c) ps" "list_all (\<lambda>(n, c). route_entry_ok c) rs"
    "py ''default'' \<in> set (map fst rs)"
proof -
  from assms obtain kvs where d: "data = PDict kvs" by (cases data) (simp_all add: doc_ok_def)
  let ?pv = "case map_of kvs (py ''providers'') of None \<Rightarrow> PDict [] | Some v \<Rightarrow> v"
  let ?rv = "case map_of kvs (py ''routes'') of None \<Rightarrow> PDict [] | Some v \<Rightarrow> v"
  from assms d obtain ps where ps: "py_items ?pv = Inr ps"
    by (cases "py_items ?pv") (simp_all add: doc_ok_def)
  from assms d ps obtain rs where rs: "py_items ?rv = Inr rs"
    by (cases "py_items ?rv") (simp_all add: doc_ok_def)
  from assms d ps rs have "list_all (\<lambda>(n, c). entry_ok c) ps"
    "list_all (\<lambda>(n, c). route_entry_ok c) rs" "py ''default'' \<in> set (map fst rs)"
    by (simp_all add: doc_ok_def)
  with d ps rs that show ?thesis by (simp add: py_items_Inr)
qed

lemma doc_ok_entry:
  assumes "doc_ok entry_ok data" "(n, c) \<in> set (section_items data (py ''providers''))"
  shows "entry_ok c"
proof -
  from assms(1) obtain kvs ps where d: "data = PDict kvs"
    "(case map_of kvs (py ''providers'') of None \<Rightarrow> PDict [] | Some v \<Rightarrow> v) = PDict ps"
    "list_all (\<lambda>(n, c). entry_ok c) ps"
    by (rule doc_ok_sections)
  from assms(2) d(1,2) have "(n, c) \<in> set ps"
    by (auto simp: section_items_def split: option.splits pyval.splits)
  with d(3) show ?thesis by (auto simp: list_all_iff)
qed

lemma doc_ok_default:
  assumes "doc_ok entry_ok data"
  shows "py ''default'' \<in> set (map fst (section_items data (py ''routes'')))"
proof -
  from assms obtain kvs rs where d: "data = PDict kvs"
    "(case map_of kvs (py ''routes'') of None \<Rightarrow> PDict [] | Some v \<Rightarrow> v) = PDict rs"
    "py ''default'' \<in> set (map fst rs)"
    by (rule doc_ok_sections)
  from d have "section_items data (py ''routes'') = rs"
    by (cases "map_of kvs (py ''routes'')") (auto simp: section_items_def)
  with d(3) show ?thesis by simp
qed

text \<open>
  The loaders check neither the weights of a route nor the provider names it lists:
  the document whose weighted route has weights \<open>[1, 0]\<close> loads, in both routers,
  and so does the document whose route names a provider \<open>Z\<close> that the catalog lacks.
  Where a load fails, the exception is the one of the failing statement: the
  \<open>KeyError\<close> of the key \<open>model\<close> that provider \<open>C\<close> lacks, the \<open>ValueError\<close> of
  the loader for the document without a \<open>default\<close> route.
\<close>

theorem weights_1_0_load_counterexample:
  "\<not> isl (LLMRouter_from_yaml_file no_parse doc_weights_1_0 (py ''common''))
   \<and> \<not> isl (EmbeddingRouter_from_yaml_file no_parse doc_weights_1_0)
   \<and> \<not> isl (LLMRouter_from_yaml_file no_parse doc_unknown_provider (py ''common''))
   \<and> \<not> isl (EmbeddingRouter_from_yaml_file no_parse doc_unknown_provider)
   \<and> LLMRouter_from_yaml_file no_parse doc_no_model (py ''common'')
       = Inl (KeyError (PStr (py ''model'')))
   \<and> EmbeddingRouter_from_yaml_file no_parse doc_no_model
       = Inl (KeyError (PStr (py ''model'')))
   \<and> LLMRouter_from_yaml_file no_parse doc_no_default (py ''common'')
       = Inl (ValueError (py ''llm_routes.yaml must define a 'default' route''))
   \<and> EmbeddingRouter_from_yaml_file no_parse doc_no_default
       = Inl (ValueError (py ''embedding_routes.yaml must define a 'default' route''))"
proof -
  have "\<not> isl (LLMRouter_from_yaml_file no_parse doc_weights_1_0 (py ''common''))"
    "\<not> isl (EmbeddingRouter_from_yaml_file no_parse doc_weights_1_0)"
    "\<not> isl (LLMRouter_from_yaml_file no_parse doc_unknown_provider (py ''common''))"
    "\<not> isl (EmbeddingRouter_from_yaml_file no_parse doc_unknown_provider)"
    by (simp_all add: LLMRouter_from_yaml_file_isl EmbeddingRouter_from_yaml_file_isl doc_ok_def
        doc_weights_1_0_def doc_unknown_provider_def doc_of_def cfg_A_def cfg_B_def rcfg_fallback_def
      rcfg_weighted_def llm_entry_ok_def
        embedding_entry_ok_def route_entry_ok_def)
  moreover have "LLMRouter_from_yaml_file no_parse doc_no_model (py ''common'')
       = Inl (KeyError (PStr (py ''model'')))"
    "EmbeddingRouter_from_yaml_file no_parse doc_no_model
       = Inl (KeyError (PStr (py ''model'')))"
    by (simp_all add: LLMRouter_from_yaml_file_def EmbeddingRouter_from_yaml_file_def
        from_yaml_sections doc_no_model_def doc_of_def cfg_A_def cfg_no_model_def
        make_LLMProvider_def make_EmbeddingProvider_def and_then_def)
  moreover have "LLMRouter_from_yaml_file no_parse doc_no_default (py ''common'')
       = Inl (ValueError (py ''llm_routes.yaml must define a 'default' route''))"
    "EmbeddingRouter_from_yaml_file no_parse doc_no_default
       = Inl (ValueError (py ''embedding_routes.yaml must define a 'default' route''))"
    by (simp_all add: LLMRouter_from_yaml_file_def EmbeddingRouter_from_yaml_file_def
        from_yaml_sections doc_no_default_def doc_of_def cfg_A_def cfg_B_def rcfg_fallback_def
        make_LLMProvider_def make_EmbeddingProvider_def make_Route_def and_then_def)
  ultimately show ?thesis by (intro conjI)
qed

lemma missing_key_not_ok:
  "map_of c (py ''provider_type'') = None \<or> map_of c (py ''endpoint'') = None
     \<or> map_of c (py ''model'') = None \<Longrightarrow> \<not> llm_entry_ok parse (PDict c)"
  "map_of c (py ''provider_type'') = None \<or> map_of c (py ''endpoint'') = None
     \<or> map_of c (py ''model'') = None \<or> map_of c (py ''embedding_dim'') = None
     \<Longrightarrow> \<not> embedding_entry_ok parse (PDict c)"
  by (auto simp: llm_entry_ok_def embedding_entry_ok_def)

lemma from_yaml_no_default:
  assumes mk: "\<And>n c. isl (mk n c) \<longleftrightarrow> \<not> entry_ok c"
    and ps: "list_all (\<lambda>(n, c). entry_ok c) ps"
    and rs: "list_all (\<lambda>(n, c). route_entry_ok c) rs"
    and nd: "py ''default'' \<notin> set (map fst rs)"
  shows "from_yaml mk msg (doc_of ps rs) = Inl (ValueError msg)"
proof -
  from ps have "\<not> isl (load_providers mk ps Map.empty)"
    by (simp add: load_providers_isl mk)
  then obtain provs where provs: "load_providers mk ps Map.empty = Inr provs"
    by (cases "load_providers mk ps Map.empty") simp_all
  from rs have "\<not> isl (load_routes rs Map.empty None)"
    by (simp add: load_routes_isl)
  then obtain m d where lr: "load_routes rs Map.empty None = Inr (m, d)"
    by (cases "load_routes rs Map.empty None") auto
  from load_routes_default[OF lr] nd have "d = None" by simp
  with provs lr show ?thesis
    by (simp add: from_yaml_sections doc_of_def)
qed

text \<open>
  C4, as the code has it. Loading fails whenever a provider entry of the document
  lacks \<open>provider_type\<close>, \<open>endpoint\<close> or \<open>model\<close> (or \<open>embedding_dim\<close>, for the
  embedding router), and whenever the routes of the document have no \<open>default\<close>.
  The constructor call raises the \<open>KeyError\<close> of the first required key that the
  entry lacks; a document of a providers and a routes section whose entries are all
  accepted, without a \<open>default\<close> route, raises the \<open>ValueError\<close> of the loader.
  Loading fails exactly on the documents that are not \<open>doc_ok\<close>: neither the
  provider names nor the weights of a route are looked at.
\<close>

theorem config_load_failures:
  "((n, PDict c) \<in> set (section_items data (py ''providers''))
      \<and> (map_of c (py ''provider_type'') = None \<or> map_of c (py ''endpoint'') = None
           \<or> map_of c (py ''model'') = None)
      \<longrightarrow> isl (LLMRouter_from_yaml_file parse data label))
   \<and> ((n, PDict c) \<in> set (section_items data (py ''providers''))
      \<and> (map_of c (py ''provider_type'') = None \<or> map_of c (py ''endpoint'') = None
           \<or> map_of c (py ''model'') = None \<or> map_of c (py ''embedding_dim'') = None)
      \<longrightarrow> isl (EmbeddingRouter_from_yaml_file parse data))
   \<and> (py ''default'' \<notin> set (map fst (section_items data (py ''routes'')))
      \<longrightarrow> isl (LLMRouter_from_yaml_file parse data label)
          \<and> isl (EmbeddingRouter_from_yaml_file parse data))
   \<and> (find (\<lambda>k. map_of c k = None) [py ''provider_type'', py ''endpoint'', py ''model''] = Some k
      \<longrightarrow> make_LLMProvider parse n (PDict c) = Inl (KeyError (PStr k)))
   \<and> (find (\<lambda>k. map_of c k = None)
          [py ''provider_type'', py ''endpoint'', py ''model'', py ''embedding_dim''] = Some k
      \<longrightarrow> make_EmbeddingProvider parse n (PDict c) = Inl (KeyError (PStr k)))
   \<and> (isl (LLMRouter_from_yaml_file parse data label) \<longleftrightarrow> \<not> doc_ok (llm_entry_ok parse) data)
   \<and> (isl (EmbeddingRouter_from_yaml_file parse data)
        \<longleftrightarrow> \<not> doc_ok (embedding_entry_ok parse) data)
   \<and> (list_all (\<lambda>(n, c). llm_entry_ok parse c) ps \<and> list_all (\<lambda>(n, c). route_entry_ok c) rs
        \<and> py ''default'' \<notin> set (map fst rs)
      \<longrightarrow> LLMRouter_from_yaml_file parse (doc_of ps rs) label
            = Inl (ValueError (py ''llm_routes.yaml must define a 'default' route'')))
   \<and> (list_all (\<lambda>(n, c). embedding_entry_ok parse c) ps
        \<and> list_all (\<lambda>(n, c). route_entry_ok c) rs
        \<and> py ''default'' \<notin> set (map fst rs)
      \<longrightarrow> EmbeddingRouter_from_yaml_file parse (doc_of ps rs)
            = Inl (ValueError (py ''embedding_routes.yaml must define a 'default' route'')))"
proof (intro conjI impI)
  assume a: "(n, PDict c) \<in> set (section_items data (py ''providers''))
      \<and> (map_of c (py ''provider_type'') = None \<or> map_of c (py ''endpoint'') = None
           \<or> map_of c (py ''model'') = None)"
  then have "\<not> llm_entry_ok parse (PDict c)" by (simp add: missing_key_not_ok)
  with a doc_ok_entry[of "llm_entry_ok parse" data n "PDict c"]
  show "isl (LLMRouter_from_yaml_file parse data label)"
    by (auto simp: LLMRouter_from_yaml_file_isl)
next
  assume a: "(n, PDict c) \<in> set (section_items data (py ''providers''))
      \<and> (map_of c (py ''provider_type'') = None \<or> map_of c (py ''endpoint'') = None
           \<or> map_of c (py ''model'') = None \<or> map_of c (py ''embedding_dim'') = None)"
  then have "\<not> embedding_entry_ok parse (PDict c)" by (simp add: missing_key_not_ok)
  with a doc_ok_entry[of "embedding_entry_ok parse" data n "PDict c"]
  show "isl (EmbeddingRouter_from_yaml_file parse data)"
    by (auto simp: EmbeddingRouter_from_yaml_file_isl)
next
  assume a: "py ''default'' \<notin> set (map fst (section_items data (py ''routes'')))"
  with doc_ok_default[of "llm_entry_ok parse" data]
  show "isl (LLMRouter_from_yaml_file parse data label)"
    by (auto simp: LLMRouter_from_yaml_file_isl)
  from a doc_ok_default[of "embedding_entry_ok parse" data]
  show "isl (EmbeddingRouter_from_yaml_file parse data)"
    by (auto simp: EmbeddingRouter_from_yaml_file_isl)
next
  assume "find (\<lambda>k. map_of c k = None) [py ''provider_type'', py ''endpoint'', py ''model'']
            = Some k"
  then show "make_LLMProvider parse n (PDict c) = Inl (KeyError (PStr k))"
    by (auto simp: make_LLMProvider_def and_then_def split: if_splits)
next
  assume "find (\<lambda>k. map_of c k = None)
            [py ''provider_type'', py ''endpoint'', py ''model'', py ''embedding_dim''] = Some k"
  then show "make_EmbeddingProvider parse n (PDict c) = Inl (KeyError (PStr k))"
    by (auto simp: make_EmbeddingProvider_def and_then_def split: if_splits)
next
  show "isl (LLMRouter_from_yaml_file parse data label) \<longleftrightarrow> \<not> doc_ok (llm_entry_ok parse) data"
    by (rule LLMRouter_from_yaml_file_isl)
  show "isl (EmbeddingRouter_from_yaml_file parse data)
        \<longleftrightarrow> \<not> doc_ok (embedding_entry_ok parse) data"
    by (rule EmbeddingRouter_from_yaml_file_isl)
next
  assume "list_all (\<lambda>(n, c). llm_entry_ok parse c) ps
        \<and> list_all (\<lambda>(n, c). route_entry_ok c) rs
        \<and> py ''default'' \<notin> set (map fst rs)"
  then show "LLMRouter_from_yaml_file parse (doc_of ps rs) label
            = Inl (ValueError (py ''llm_routes.yaml must define a 'default' route''))"
    using from_yaml_no_default[of "make_LLMProvider parse" "llm_entry_ok parse" ps rs]
    by (simp add: LLMRouter_from_yaml_file_def make_LLMProvider_isl and_then_def)
next
  assume "list_all (\<lambda>(n, c). embedding_entry_ok parse c) ps
        \<and> list_all (\<lambda>(n, c). route_entry_ok c) rs
        \<and> py ''default'' \<notin> set (map fst rs)"
  then show "EmbeddingRouter_from_yaml_file parse (doc_of ps rs)
            = Inl (ValueError (py ''embedding_routes.yaml must define a 'default' route''))"
    using from_yaml_no_default[of "make_EmbeddingProvider parse" "embedding_entry_ok parse" ps rs]
    by (simp add: EmbeddingRouter_from_yaml_file_def make_EmbeddingProvider_isl)
qed

text \<open>
  A document whose provider \<open>C\<close> has no \<open>model\<close>, a document without a \<open>default\<close>
  route, the empty file, an entry without \<open>provider_type\<close>, and the document with
  two routes, which loads.
\<close>

theorem config_load_failures_witness:
  "(py ''C'', cfg_no_model) \<in> set (section_items doc_no_model (py ''providers''))
   \<and> isl (LLMRouter_from_yaml_file no_parse doc_no_model (py ''common''))
   \<and> isl (EmbeddingRouter_from_yaml_file no_parse doc_no_model)
   \<and> py ''default'' \<notin> set (map fst (section_items doc_no_default (py ''routes'')))
   \<and> isl (LLMRouter_from_yaml_file no_parse doc_no_default (py ''common''))
   \<and> isl (EmbeddingRouter_from_yaml_file no_parse doc_no_default)
   \<and> isl (LLMRouter_from_yaml_file no_parse PNone (py ''common''))
   \<and> doc_ok (llm_entry_ok no_parse) doc_two_routes
   \<and> \<not> isl (LLMRouter_from_yaml_file no_parse doc_two_routes (py ''common''))
   \<and> LLMRouter_from_yaml_file no_parse doc_no_default (py ''common'')
       = Inl (ValueError (py ''llm_routes.yaml must define a 'default' route''))
   \<and> EmbeddingRouter_from_yaml_file no_parse doc_no_default
       = Inl (ValueError (py ''embedding_routes.yaml must define a 'default' route''))
   \<and> make_LLMProvider no_parse (py ''C'') (PDict [(py ''endpoint'', PStr (py ''https://c.example''))])
       = Inl (KeyError (PStr (py ''provider_type'')))
   \<and> make_EmbeddingProvider no_parse (py ''C'')
         (PDict [(py ''endpoint'', PStr (py ''https://c.example''))])
       = Inl (KeyError (PStr (py ''provider_type'')))
   \<and> isl (EmbeddingRouter_from_yaml_file no_parse PNone)
   \<and> doc_ok (embedding_entry_ok no_parse) doc_two_routes
   \<and> \<not> isl (EmbeddingRouter_from_yaml_file no_parse doc_two_routes)"
proof -
  let ?c = "[(py ''provider_type'', PStr (py ''groq'')),
             (py ''endpoint'', PStr (py ''https://c.example'')),
             (py ''embedding_dim'', PNum 768)]"
  have c: "cfg_no_model = PDict ?c" by (simp add: cfg_no_model_def)
  have m: "(py ''C'', PDict ?c) \<in> set (section_items doc_no_model (py ''providers''))"
    "map_of ?c (py ''model'') = None"
    by (simp_all add: section_items_def doc_no_model_def doc_of_def cfg_no_model_def)
  have d: "py ''default'' \<notin> set (map fst (section_items doc_no_default (py ''routes'')))"
    by (simp add: section_items_def doc_no_default_def doc_of_def)
  have e: "\<not> doc_ok (llm_entry_ok no_parse) PNone"
    by (simp add: doc_ok_def)
  have ok: "doc_ok (llm_entry_ok no_parse) doc_two_routes"
    by (simp add: doc_ok_def doc_two_routes_def doc_of_def cfg_A_def cfg_B_def rcfg_fallback_def llm_entry_ok_def route_entry_ok_def)
  note T1 = config_load_failures[of "py ''C''" ?c doc_no_model no_parse "py ''common''"]
  note T2 = config_load_failures[of "py ''C''" ?c doc_no_default no_parse "py ''common''"]
  note T3 = config_load_failures[of "py ''C''" ?c PNone no_parse "py ''common''"]
  note T4 = config_load_failures[of "py ''C''" ?c doc_two_routes no_parse "py ''common''"]
  from m have 1: "isl (LLMRouter_from_yaml_file no_parse doc_no_model (py ''common''))"
    using T1[THEN conjunct1] by simp
  from m have 2: "isl (EmbeddingRouter_from_yaml_file no_parse doc_no_model)"
    using T1[THEN conjunct2, THEN conjunct1] by simp
  from d have 3: "isl (LLMRouter_from_yaml_file no_parse doc_no_default (py ''common''))
          \<and> isl (EmbeddingRouter_from_yaml_file no_parse doc_no_default)"
    using T2[THEN conjunct2, THEN conjunct2, THEN conjunct1] by simp
  from e have 4: "isl (LLMRouter_from_yaml_file no_parse PNone (py ''common''))"
    using T3[THEN conjunct2, THEN conjunct2, THEN conjunct2, THEN conjunct2, THEN conjunct2,
        THEN conjunct1]
    by simp
  from ok have 5: "\<not> isl (LLMRouter_from_yaml_file no_parse doc_two_routes (py ''common''))"
    using T4[THEN conjunct2, THEN conjunct2, THEN conjunct2, THEN conjunct2, THEN conjunct2,
        THEN conjunct1]
    by simp
  from m(1) have 0: "(py ''C'', cfg_no_model) \<in> set (section_items doc_no_model (py ''providers''))"
    by (simp only: c)
  let ?ps = "[(py ''A'', cfg_A), (py ''B'', cfg_B)]"
  let ?rs = "[(py ''authoring.generate'', rcfg_fallback [''A'', ''B''])]"
  have dd: "doc_no_default = doc_of ?ps ?rs" by (simp add: doc_no_default_def)
  have h1: "list_all (\<lambda>(n, c). llm_entry_ok no_parse c) ?ps
        \<and> list_all (\<lambda>(n, c). route_entry_ok c) ?rs
        \<and> py ''default'' \<notin> set (map fst ?rs)"
    by (simp add: cfg_A_def cfg_B_def rcfg_fallback_def llm_entry_ok_def route_entry_ok_def)
  have h2: "list_all (\<lambda>(n, c). embedding_entry_ok no_parse c) ?ps
        \<and> list_all (\<lambda>(n, c). route_entry_ok c) ?rs
        \<and> py ''default'' \<notin> set (map fst ?rs)"
    by (simp add: cfg_A_def cfg_B_def rcfg_fallback_def embedding_entry_ok_def
        route_entry_ok_def)
  note T5 = config_load_failures[of "py ''C''" ?c doc_no_default no_parse "py ''common''" _ ?ps ?rs]
  have 6: "LLMRouter_from_yaml_file no_parse doc_no_default (py ''common'')
       = Inl (ValueError (py ''llm_routes.yaml must define a 'default' route''))"
    unfolding dd
    by (rule T5[THEN conjunct2, THEN conjunct2, THEN conjunct2, THEN conjunct2, THEN conjunct2,
          THEN conjunct2, THEN conjunct2, THEN conjunct1, THEN mp, OF h1])
  have 7: "EmbeddingRouter_from_yaml_file no_parse doc_no_default
       = Inl (ValueError (py ''embedding_routes.yaml must define a 'default' route''))"
    unfolding dd
    by (rule T5[THEN conjunct2, THEN conjunct2, THEN conjunct2, THEN conjunct2, THEN conjunct2,
          THEN conjunct2, THEN conjunct2, THEN conjunct2, THEN mp, OF h2])
  let ?e = "[(py ''endpoint'', PStr (py ''https://c.example''))]"
  have k: "find (\<lambda>k. map_of ?e k = None) [py ''provider_type'', py ''endpoint'', py ''model'']
             = Some (py ''provider_type'')"
    "find (\<lambda>k. map_of ?e k = None)
       [py ''provider_type'', py ''endpoint'', py ''model'', py ''embedding_dim'']
             = Some (py ''provider_type'')"
    by simp_all
  note T6 = config_load_failures[of "py ''C''" ?e PNone no_parse "py ''common''"
      "py ''provider_type''"]
  note 8 = T6[THEN conjunct2, THEN conjunct2, THEN conjunct2, THEN conjunct1, THEN mp, OF k(1)]
  note 11 = T6[THEN conjunct2, THEN conjunct2, THEN conjunct2, THEN conjunct2, THEN conjunct1,
      THEN mp, OF k(2)]
  have e': "\<not> doc_ok (embedding_entry_ok no_parse) PNone"
    by (simp add: doc_ok_def)
  have ok': "doc_ok (embedding_entry_ok no_parse) doc_two_routes"
    by (simp add: doc_ok_def doc_two_routes_def doc_of_def cfg_A_def cfg_B_def rcfg_fallback_def embedding_entry_ok_def
        route_entry_ok_def)
  from e' have 9: "isl (EmbeddingRouter_from_yaml_file no_parse PNone)"
    using T3[THEN conjunct2, THEN conjunct2, THEN conjunct2, THEN conjunct2, THEN conjunct2,
        THEN conjunct2, THEN conjunct1]
    by simp
  from ok' have 10: "\<not> isl (EmbeddingRouter_from_yaml_file no_parse doc_two_routes)"
    using T4[THEN conjunct2, THEN conjunct2, THEN conjunct2, THEN conjunct2, THEN conjunct2,
        THEN conjunct2, THEN conjunct1]
    by simp
  from 0 1 2 d 3 4 ok 5 6 7 8 11 9 ok' 10 show ?thesis
    by (intro conjI) (elim conjE, assumption)+
qed

section \<open>Route resolution\<close>

lemma from_yaml_resolve:
  assumes ok: "from_yaml mk msg data = Inr r"
    and dist: "distinct (map fst (section_items data (py ''routes'')))"
  shows "\<exists>c. map_of (section_items data (py ''routes''))
               (if use_case \<in> set (map fst (section_items data (py ''routes'')))
                then use_case else py ''default'') = Some c
            \<and> make_Route (if use_case \<in> set (map fst (section_items data (py ''routes'')))
                           then use_case else py ''default'') c = Inr (resolve_route r use_case)"
proof -
  let ?rs = "section_items data (py ''routes'')"
  from ok obtain kvs where d: "data = PDict kvs"
    by (cases data) (simp_all add: from_yaml_sections)
  let ?pv = "case map_of kvs (py ''providers'') of None \<Rightarrow> PDict [] | Some v \<Rightarrow> v"
  let ?rv = "case map_of kvs (py ''routes'') of None \<Rightarrow> PDict [] | Some v \<Rightarrow> v"
  from ok d obtain ps where ps: "py_items ?pv = Inr ps"
    by (cases "py_items ?pv") (simp_all add: from_yaml_sections)
  from ok d ps obtain provs where pr: "load_providers mk ps Map.empty = Inr provs"
    by (cases "load_providers mk ps Map.empty") (simp_all add: from_yaml_sections)
  from ok d ps pr obtain rs where rs: "py_items ?rv = Inr rs"
    by (cases "py_items ?rv") (simp_all add: from_yaml_sections)
  from ok d ps pr rs obtain m dr where lr: "load_routes rs Map.empty None = Inr (m, Some dr)"
    and r: "r = \<lparr>router_providers = provs, routes = m, default_route = dr\<rparr>"
    by (cases "load_routes rs Map.empty None")
       (auto simp: from_yaml_sections split: option.splits prod.splits)
  from rs have "?rv = PDict rs" by (simp add: py_items_Inr)
  then have sec: "?rs = rs"
    by (cases "map_of kvs (py ''routes'')") (auto simp: section_items_def d)
  from dist sec have dist': "distinct (map fst rs)" by simp
  note L = load_routes_lookup[OF lr dist']
  from L[of "py ''default''"] obtain cd where cd: "map_of rs (py ''default'') = Some cd"
    and md: "make_Route (py ''default'') cd = Inr dr"
    by (cases "map_of rs (py ''default'')") auto
  show ?thesis
  proof (cases "use_case = py ''default''")
    case True
    have "m (py ''default'') = None" using L[of "py ''default''"] by simp
    then show ?thesis using True cd md by (simp add: resolve_route_def r sec)
  next
    case False
    show ?thesis
    proof (cases "map_of rs use_case")
      case None
      then have "use_case \<notin> set (map fst rs)" by (simp add: map_of_eq_None_iff)
      moreover from L[of use_case] False None have "m use_case = None" by simp
      ultimately show ?thesis using cd md by (simp add: resolve_route_def r sec)
    next
      case (Some c)
      then have "use_case \<in> set (map fst rs)"
        using map_of_eq_None_iff[of rs use_case] by auto
      moreover from L[of use_case] False Some
      have "make_Route use_case c = Inr (the (m use_case))" "m use_case \<noteq> None" by simp_all
      ultimately show ?thesis using Some by (auto simp: resolve_route_def r sec)
    qed
  qed
qed

lemma resolve_route_extend:
  "resolve_route (Router.extend r x) use_case = resolve_route r use_case"
  by (simp add: resolve_route_def Router.extend_def split: option.splits)

lemma load_two_routes:
  "LLMRouter_from_yaml_file no_parse doc_two_routes (py ''common'') = Inr llm_router_two_routes"
  by (simp add: LLMRouter_from_yaml_file_def from_yaml_sections doc_two_routes_def doc_of_def cfg_A_def cfg_B_def rcfg_fallback_def
      make_LLMProvider_def make_Route_def and_then_def llm_router_two_routes_def
      provider_A_def provider_B_def route_of_def Router.defs)

text \<open>
  C9. \<open>resolve_route\<close> is a function of the router and the use case alone, with a
  route for every use case: the table's entry when there is one, the default route
  otherwise. For a router that either loader built from a document (its route names
  distinct, as the keys of a mapping are), that is the route made from the
  document's entry for the use case when it has one, and from its \<open>default\<close> entry
  for every other use case.
\<close>

theorem resolve_route_never_fails:
  "(routes r use_case = Some route \<longrightarrow> resolve_route r use_case = route)
   \<and> (routes r use_case = None \<longrightarrow> resolve_route r use_case = default_route r)
   \<and> (LLMRouter_from_yaml_file parse data label = Inr lr
        \<and> distinct (map fst (section_items data (py ''routes''))) \<longrightarrow>
      (\<exists>c. map_of (section_items data (py ''routes''))
              (if use_case \<in> set (map fst (section_items data (py ''routes'')))
               then use_case else py ''default'') = Some c
         \<and> make_Route (if use_case \<in> set (map fst (section_items data (py ''routes'')))
                        then use_case else py ''default'') c = Inr (resolve_route lr use_case)))
   \<and> (EmbeddingRouter_from_yaml_file parse data = Inr er
        \<and> distinct (map fst (section_items data (py ''routes''))) \<longrightarrow>
      (\<exists>c. map_of (section_items data (py ''routes''))
              (if use_case \<in> set (map fst (section_items data (py ''routes'')))
               then use_case else py ''default'') = Some c
         \<and> make_Route (if use_case \<in> set (map fst (section_items data (py ''routes'')))
                        then use_case else py ''default'') c = Inr (resolve_route er use_case)))"
proof (intro conjI impI)
  assume "routes r use_case = Some route"
  then show "resolve_route r use_case = route"
    by (simp add: resolve_route_def)
next
  assume "routes r use_case = None"
  then show "resolve_route r use_case = default_route r"
    by (simp add: resolve_route_def)
next
  assume a: "LLMRouter_from_yaml_file parse data label = Inr lr
        \<and> distinct (map fst (section_items data (py ''routes'')))"
  then obtain r0 where r0: "from_yaml (make_LLMProvider parse)
      (py ''llm_routes.yaml must define a 'default' route'') data = Inr r0"
    and lr: "lr = Router.extend r0 \<lparr>component = label\<rparr>"
    by (cases "from_yaml (make_LLMProvider parse)
          (py ''llm_routes.yaml must define a 'default' route'') data")
       (auto simp: LLMRouter_from_yaml_file_def and_then_def)
  from from_yaml_resolve[OF r0, of use_case] a
  show "\<exists>c. map_of (section_items data (py ''routes''))
              (if use_case \<in> set (map fst (section_items data (py ''routes'')))
               then use_case else py ''default'') = Some c
         \<and> make_Route (if use_case \<in> set (map fst (section_items data (py ''routes'')))
                        then use_case else py ''default'') c = Inr (resolve_route lr use_case)"
    unfolding lr resolve_route_extend by blast
next
  assume a: "EmbeddingRouter_from_yaml_file parse data = Inr er
        \<and> distinct (map fst (section_items data (py ''routes'')))"
  then show "\<exists>c. map_of (section_items data (py ''routes''))
              (if use_case \<in> set (map fst (section_items data (py ''routes'')))
               then use_case else py ''default'') = Some c
         \<and> make_Route (if use_case \<in> set (map fst (section_items data (py ''routes'')))
                        then use_case else py ''default'') c = Inr (resolve_route er use_case)"
    using from_yaml_resolve[of "make_EmbeddingProvider parse" _ data er use_case]
    unfolding EmbeddingRouter_from_yaml_file_def by blast
qed

text \<open>
  The routers loaded from the document with two routes resolve the use case
  \<open>nonexistent.case\<close> to the route of the \<open>default\<close> entry, and
  \<open>authoring.generate\<close> to its own route.
\<close>

theorem resolve_route_never_fails_witness:
  "LLMRouter_from_yaml_file no_parse doc_two_routes (py ''common'') = Inr llm_router_two_routes
   \<and> distinct (map fst (section_items doc_two_routes (py ''routes'')))
   \<and> routes llm_router_two_routes (py ''nonexistent.case'') = None
   \<and> resolve_route llm_router_two_routes (py ''nonexistent.case'')
       = route_of ''default'' ''primary-fallback'' [''A'', ''B''] PNone
   \<and> routes llm_router_two_routes (py ''authoring.generate'')
       = Some (route_of ''authoring.generate'' ''primary-fallback'' [''B''] PNone)
   \<and> resolve_route llm_router_two_routes (py ''authoring.generate'')
       = route_of ''authoring.generate'' ''primary-fallback'' [''B''] PNone
   \<and> resolve_route llm_router_two_routes (py ''nonexistent.case'')
       = default_route llm_router_two_routes
   \<and> (\<exists>er. EmbeddingRouter_from_yaml_file no_parse doc_two_routes = Inr er
          \<and> resolve_route er (py ''nonexistent.case'')
              = route_of ''default'' ''primary-fallback'' [''A'', ''B''] PNone)"
proof -
  have d: "distinct (map fst (section_items doc_two_routes (py ''routes'')))"
    by (simp add: doc_two_routes_def doc_of_def section_items_def)
  have n: "routes llm_router_two_routes (py ''nonexistent.case'') = None"
    by (simp add: llm_router_two_routes_def)
  have k: "(if py ''nonexistent.case'' \<in> set (map fst (section_items doc_two_routes (py ''routes'')))
           then py ''nonexistent.case'' else py ''default'') = py ''default''"
    by (simp add: doc_two_routes_def doc_of_def section_items_def)
  have s: "map_of (section_items doc_two_routes (py ''routes'')) (py ''default'')
             = Some (rcfg_fallback [''A'', ''B''])"
    by (simp add: doc_two_routes_def doc_of_def section_items_def)
  note T = resolve_route_never_fails[of llm_router_two_routes "py ''nonexistent.case''" _
      no_parse doc_two_routes "py ''common''" llm_router_two_routes,
      THEN conjunct2, THEN conjunct2, THEN conjunct1, THEN mp, OF conjI[OF load_two_routes d]]
  from T obtain c where c: "map_of (section_items doc_two_routes (py ''routes'')) (py ''default'') = Some c"
    "make_Route (py ''default'') c = Inr (resolve_route llm_router_two_routes (py ''nonexistent.case''))"
    unfolding k by blast
  from c(1) s have "c = rcfg_fallback [''A'', ''B'']" by simp
  with c(2) have r: "resolve_route llm_router_two_routes (py ''nonexistent.case'')
       = route_of ''default'' ''primary-fallback'' [''A'', ''B''] PNone"
    by (simp add: make_Route_def rcfg_fallback_def and_then_def route_of_def)
  have hit: "routes llm_router_two_routes (py ''authoring.generate'')
       = Some (route_of ''authoring.generate'' ''primary-fallback'' [''B''] PNone)"
    by (simp add: llm_router_two_routes_def)
  note H = resolve_route_never_fails[of llm_router_two_routes "py ''authoring.generate''"
      "route_of ''authoring.generate'' ''primary-fallback'' [''B''] PNone"
      no_parse doc_two_routes "py ''common''" llm_router_two_routes,
      THEN conjunct1, THEN mp, OF hit]
  note M = resolve_route_never_fails[of llm_router_two_routes "py ''nonexistent.case''" _
      no_parse doc_two_routes "py ''common''" llm_router_two_routes,
      THEN conjunct2, THEN conjunct1, THEN mp, OF n]
  have "\<not> isl (EmbeddingRouter_from_yaml_file no_parse doc_two_routes)"
    by (simp add: EmbeddingRouter_from_yaml_file_isl doc_ok_def doc_two_routes_def doc_of_def
        cfg_A_def cfg_B_def rcfg_fallback_def embedding_entry_ok_def route_entry_ok_def)
  then obtain er where er: "EmbeddingRouter_from_yaml_file no_parse doc_two_routes = Inr er"
    by (cases "EmbeddingRouter_from_yaml_file no_parse doc_two_routes") simp_all
  note E = resolve_route_never_fails[of llm_router_two_routes "py ''nonexistent.case''" _
      no_parse doc_two_routes "py ''common''" llm_router_two_routes er,
      THEN conjunct2, THEN conjunct2, THEN conjunct2, THEN mp, OF conjI[OF er d]]
  from E obtain c' where c':
    "map_of (section_items doc_two_routes (py ''routes'')) (py ''default'') = Some c'"
    "make_Route (py ''default'') c' = Inr (resolve_route er (py ''nonexistent.case''))"
    unfolding k by blast
  from c'(1) s have "c' = rcfg_fallback [''A'', ''B'']" by simp
  with c'(2) have "resolve_route er (py ''nonexistent.case'')
       = route_of ''default'' ''primary-fallback'' [''A'', ''B''] PNone"
    by (simp add: make_Route_def rcfg_fallback_def and_then_def route_of_def)
  with er have X: "\<exists>er. EmbeddingRouter_from_yaml_file no_parse doc_two_routes = Inr er
          \<and> resolve_route er (py ''nonexistent.case'')
              = route_of ''default'' ''primary-fallback'' [''A'', ''B''] PNone"
    by blast
  from load_two_routes d n r hit H M X show ?thesis by (intro conjI)
qed

section \<open>The logger calls of the connectors\<close>

text \<open>
  Every entry point of the connectors starts by calling \<open>get_logger\<close> with four
  positional arguments; \<open>get_logger\<close> has one parameter. The call raises \<open>TypeError\<close>
  whatever the arguments are, before a route is resolved, the cache is read or a
  request is sent.
\<close>

lemma get_logger_four_arguments: "get_logger [a, b, c, d] = Inl TypeError"
  by (cases a) simp_all

lemma generate_raises: "generate w r prompt use_case trace_id evs = (Inl TypeError, evs)"
  by (simp add: generate_def get_logger_four_arguments)

lemma call_provider_raises: "call_provider w label p prompt trace_id evs = (Inl TypeError, evs)"
  by (simp add: call_provider_def get_logger_four_arguments)

lemma embed_raises: "embed w c texts use_case trace_id evs = (Inl TypeError, evs)"
  by (simp add: embed_def get_logger_four_arguments)

lemma embed_single_raises:
  "embed_single w c text ps strat trace_id evs = (Inl TypeError, evs)"
  by (simp add: embed_single_def get_logger_four_arguments)




text \<open>
  C1. A weighted route over the providers A and B with weights 0.7 and 0.3, where
  the sampling picks A and every request to A times out. The claim has \<open>generate\<close>
  and \<open>embed\<close> sample one provider and surface that provider's error, the timeout.
  Both raise \<open>TypeError\<close> from their first statement, the \<open>get_logger\<close> call with
  four arguments: nothing is sampled and no request is sent.
\<close>

theorem weighted_dispatch_raises_type_error:
  "generate env_A_down llm_router_weighted (py ''hello'') (py ''default'') (PStr (py ''t-1'')) []
     = (Inl TypeError, [])
   \<and> embed env_A_down embedding_client_weighted [py ''hello''] (py ''default'')
       (PStr (py ''t-1'')) []
     = (Inl TypeError, [])
   \<and> random_choices env_A_down [provider_A, provider_B] (PList [PNum (7 / 10), PNum (3 / 10)])
     = Inr provider_A
   \<and> http_post env_A_down [] (endpoint provider_A) [] (timeout_ms provider_A)
       (build_payload provider_A (py ''hello''))
     = Inl TimeoutException"
  by (simp add: generate_raises embed_raises env_A_down_def env_quiet_def provider_A_def)

text \<open>
  C2. The route \<open>default\<close> of the two-route router is \<open>primary-fallback\<close> over A, with
  two retries, and B; every request to A times out and B answers. The claim has
  \<open>generate\<close> return the answer of B after three attempts against A. \<open>generate\<close>
  raises \<open>TypeError\<close> from its first statement and sends no request; so does
  \<open>_call_provider\<close>, called on A or on B.
\<close>

theorem fallback_generate_raises_type_error:
  "generate env_A_down llm_router_two_routes (py ''hello'') (py ''nonexistent.case'')
       (PStr (py ''t-1'')) []
     = (Inl TypeError, [])
   \<and> call_provider env_A_down (py ''common'') provider_A (py ''hello'') (PStr (py ''t-1'')) []
     = (Inl TypeError, [])
   \<and> call_provider env_A_down (py ''common'') provider_B (py ''hello'') (PStr (py ''t-1'')) []
     = (Inl TypeError, [])
   \<and> attempt_once env_A_down provider_B (py ''hello'') [] = Inr (PStr (py ''hello back''))"
  by (simp add: generate_raises call_provider_raises attempt_once_def env_A_down_def
      env_quiet_def provider_B_def build_payload_def extract_text_def auth_headers_def
      chat_reply_def and_then_def)


text \<open>
  C5. Every key of the cache holds a vector. The claim has \<open>embed\<close> return the
  cached vector without a request. \<open>embed\<close> and \<open>_embed_single\<close> raise \<open>TypeError\<close>
  from their first statement: the key is not built and the cache is not read.
\<close>

theorem cache_hit_embed_raises_type_error:
  "embed env_cache_hit embedding_client_fallback [py ''hello''] (py ''default'')
       (PStr (py ''t-1'')) []
     = (Inl TypeError, [])
   \<and> embed_single env_cache_hit embedding_client_fallback (py ''hello'') [emb_A, emb_B]
       (PStr (py ''primary-fallback'')) (PStr (py ''t-1'')) []
     = (Inl TypeError, [])
   \<and> redis_get env_cache_hit [] (cache_key_of env_cache_hit (py ''hello'') emb_A)
     = Inr (Some (py ''[0.5]''))"
  by (simp add: embed_raises embed_single_raises env_cache_hit_def env_quiet_def)



text \<open>
  C10. A route with strategy \<open>weighted\<close> and no weights, over A and B, where every
  request is answered. The claim has \<open>generate\<close> try A and return its answer.
  \<open>generate\<close> raises \<open>TypeError\<close> from its first statement and tries no provider.
\<close>

theorem weighted_no_weights_generate_raises_type_error:
  "generate (env_quiet 768) llm_router_weighted_no_weights (py ''hello'') (py ''default'')
       (PStr (py ''t-1'')) []
     = (Inl TypeError, [])
   \<and> weights (resolve_route llm_router_weighted_no_weights (py ''default'')) = PNone
   \<and> strategy (resolve_route llm_router_weighted_no_weights (py ''default''))
     = PStr (py ''weighted'')
   \<and> attempt_once (env_quiet 768) provider_A (py ''hello'') [] = Inr (PStr (py ''hello back''))"
  by (simp add: generate_raises llm_router_weighted_no_weights_def resolve_route_def
      route_of_def attempt_once_def env_quiet_def provider_A_def build_payload_def
      extract_text_def auth_headers_def chat_reply_def and_then_def)

end
